theory Spec2Isabelle
  imports Main "HOL-Library.AList" "HOL-Library.Sublist"
begin

section \<open>Python values, errors and dictionaries\<close>

text \<open>
  The module \<^verbatim>\<open>modules/acoemapi.py\<close> works on what \<^verbatim>\<open>requests\<close> hands it
  as decoded JSON: \<^verbatim>\<open>None\<close>, booleans, integers, floats and strings. Python's floats
  are not modelled bit by bit: the type of floats is the parameter \<open>'f\<close>, and the three
  things CPython does with them here (\<^verbatim>\<open>float(int)\<close>, \<^verbatim>\<open>float(str)\<close> and
  \<^verbatim>\<open>str(float)\<close>) are fields of the record \<open>platform\<close>, together with
  \<^verbatim>\<open>datetime.strptime(_, "%Y-%m-%dT%H:%M:%S%z")\<close>. Everything else is written out.
\<close>

datatype error = KeyError | IndexError | TypeError | ValueError | OverflowError | JSONDecodeError

datatype 'f pyval = PNone | PBool bool | PInt int | PFloat 'f | PStr string

record datetime =
  year :: nat
  month :: nat
  day :: nat
  hour :: nat
  minute :: nat
  second :: nat
  utcoffset :: int  \<comment> \<open>microseconds east of UTC\<close>

record 'f platform =
  float_of_int :: "int \<Rightarrow> error + 'f"
  float_of_str :: "string \<Rightarrow> error + 'f"
  float_repr :: "'f \<Rightarrow> string"
  strptime :: "string \<Rightarrow> error + datetime"

text \<open>\<^verbatim>\<open>float(value)\<close>: the identity on a float, \<^verbatim>\<open>TypeError\<close> on \<^verbatim>\<open>None\<close>.\<close>

fun py_float :: "'f platform \<Rightarrow> 'f pyval \<Rightarrow> error + 'f" where
  "py_float pf PNone = Inl TypeError"
| "py_float pf (PBool b) = float_of_int pf (if b then 1 else 0)"
| "py_float pf (PInt n) = float_of_int pf n"
| "py_float pf (PFloat x) = Inr x"
| "py_float pf (PStr s) = float_of_str pf s"

definition digit_chars :: string where
  "digit_chars = ''0123456789''"

function show_nat :: "nat \<Rightarrow> string" where
  "show_nat n = (if n < 10 then [digit_chars ! n] else show_nat (n div 10) @ [digit_chars ! (n mod 10)])"
  by pat_completeness auto
termination
  by (relation "measure id") auto

declare show_nat.simps [simp del]

definition show_int :: "int \<Rightarrow> string" where
  "show_int i = (if i < 0 then CHR ''-'' # show_nat (nat (- i)) else show_nat (nat i))"

text \<open>\<^verbatim>\<open>str(value)\<close>, which is also what an f-string puts in place of \<^verbatim>\<open>{value}\<close>.\<close>

fun py_str :: "'f platform \<Rightarrow> 'f pyval \<Rightarrow> string" where
  "py_str pf PNone = ''None''"
| "py_str pf (PBool b) = (if b then ''True'' else ''False'')"
| "py_str pf (PInt n) = show_int n"
| "py_str pf (PFloat x) = float_repr pf x"
| "py_str pf (PStr s) = s"

text \<open>
  A \<^verbatim>\<open>dict\<close> keeps its keys in insertion order, and \<^verbatim>\<open>d[k] = v\<close> on a present key
  replaces the value where the key stands: an association list with \<open>AList.update\<close>.
  \<^verbatim>\<open>d[k]\<close> on an absent key raises \<^verbatim>\<open>KeyError\<close>.
\<close>

type_synonym ('k, 'v) dict = "('k \<times> 'v) list"

definition py_keys :: "('k, 'v) dict \<Rightarrow> 'k list" where
  "py_keys d = map fst d"

definition py_getitem :: "('k, 'v) dict \<Rightarrow> 'k \<Rightarrow> error + 'v" where
  "py_getitem d k = (case map_of d k of None \<Rightarrow> Inl KeyError | Some v \<Rightarrow> Inr v)"

text \<open>\<^verbatim>\<open>{**a, **b}\<close>: the entries of \<open>a\<close>, then those of \<open>b\<close> stored one by one.\<close>

definition py_merge :: "('k, 'v) dict \<Rightarrow> ('k, 'v) dict \<Rightarrow> ('k, 'v) dict" where
  "py_merge a b = fold (\<lambda>(k, v) d. AList.update k v d) b a"

text \<open>A loop whose body may raise: the first error ends it.\<close>

fun fold_err :: "('a \<Rightarrow> 's \<Rightarrow> error + 's) \<Rightarrow> 'a list \<Rightarrow> 's \<Rightarrow> error + 's" where
  "fold_err f [] s = Inr s"
| "fold_err f (x # xs) s = (case f x s of Inl e \<Rightarrow> Inl e | Inr s' \<Rightarrow> fold_err f xs s')"

section \<open>The raw payload and the measurement container\<close>

record 'f channel =
  SensorName :: string
  UnitName :: string
  PreScaled :: "'f pyval"
  Scaled :: "'f pyval"
  Slope :: "'f pyval"
  Offset :: "'f pyval"
  Flags :: "string list"

record 'f raw_measurement =
  TBTimestamp :: string
  Latitude :: "'f pyval"
  Longitude :: "'f pyval"
  Altitude :: "'f pyval"
  Channels :: "'f channel list"

record 'f measurement_container =
  time :: datetime
  measurement :: string
  fields' :: "(string, 'f) dict"
  tags :: "(string, 'f pyval) dict"

text \<open>
  The answer of \<^verbatim>\<open>req.get\<close>: the status code, the body, and what \<^verbatim>\<open>.json()\<close>
  gives for that body (an error when the body is not JSON).
\<close>

record 'f response =
  status_code :: int
  content :: string
  json :: "error + 'f raw_measurement list"

record 'f AcoemRequest =
  station_meta :: "(string, (string, 'f pyval) dict) dict"
  measurement_data :: "(string, 'f measurement_container list) dict"

section \<open>\<^verbatim>\<open>dl_station_measurements\<close>\<close>

definition location_keys :: "string list" where
  "location_keys = [''Latitude'', ''Longitude'', ''Altitude'']"

definition measurement_types :: "string list" where
  "measurement_types = [''PreScaled'', ''Scaled'', ''Slope'', ''Offset'']"

definition no_data_marker :: string where
  "no_data_marker = ''NO DATA WAS FOUND FOR YOUR GIVEN PARAMETERS''"

text \<open>\<^verbatim>\<open>a in b\<close> on \<^verbatim>\<open>bytes\<close>: \<open>a\<close> occurs in \<open>b\<close> as a contiguous run.\<close>

fun bytes_in :: "'a list \<Rightarrow> 'a list \<Rightarrow> bool" where
  "bytes_in a [] = (a = [])"
| "bytes_in a (y # ys) = (prefix a (y # ys) \<or> bytes_in a ys)"

definition data_req_success :: "'f response \<Rightarrow> bool" where
  "data_req_success r = (status_code r = 200 \<and> \<not> bytes_in (content r) no_data_marker)"

text \<open>\<^verbatim>\<open>measurement[key]\<close> and \<^verbatim>\<open>channel[measurement_type]\<close> for the keys the code uses.\<close>

definition measurement_item :: "'f raw_measurement \<Rightarrow> string \<Rightarrow> error + 'f pyval" where
  "measurement_item m k =
     (if k = ''Latitude'' then Inr (Latitude m)
      else if k = ''Longitude'' then Inr (Longitude m)
      else if k = ''Altitude'' then Inr (Altitude m)
      else Inl KeyError)"

definition channel_item :: "'f channel \<Rightarrow> string \<Rightarrow> error + 'f pyval" where
  "channel_item c k =
     (if k = ''PreScaled'' then Inr (PreScaled c)
      else if k = ''Scaled'' then Inr (Scaled c)
      else if k = ''Slope'' then Inr (Slope c)
      else if k = ''Offset'' then Inr (Offset c)
      else Inl KeyError)"

definition field_key :: "'f channel \<Rightarrow> string \<Rightarrow> string" where
  "field_key c measurement_type =
     SensorName c @ '' '' @ measurement_type @ '' ['' @ UnitName c @ '']''"

definition flag_key :: "'f channel \<Rightarrow> string" where
  "flag_key c = SensorName c @ '' Flag''"

text \<open>Lines 227 to 230: the location variables that are not \<^verbatim>\<open>None\<close>.\<close>

definition add_location ::
  "'f platform \<Rightarrow> 'f raw_measurement \<Rightarrow> string \<Rightarrow> (string, 'f) dict \<Rightarrow> error + (string, 'f) dict" where
  "add_location pf m key fs =
     (case measurement_item m key of
        Inl e \<Rightarrow> Inl e
      | Inr value \<Rightarrow>
          if value \<noteq> PNone
          then (case py_float pf value of Inl e \<Rightarrow> Inl e | Inr x \<Rightarrow> Inr (AList.update key x fs))
          else Inr fs)"

text \<open>Lines 238 to 243: one field per measurement type, each through \<^verbatim>\<open>float\<close>.\<close>

definition add_field ::
  "'f platform \<Rightarrow> 'f channel \<Rightarrow> string \<Rightarrow> (string, 'f) dict \<Rightarrow> error + (string, 'f) dict" where
  "add_field pf c measurement_type fs =
     (case channel_item c measurement_type of
        Inl e \<Rightarrow> Inl e
      | Inr value \<Rightarrow>
          (case py_float pf value of
             Inl e \<Rightarrow> Inl e
           | Inr x \<Rightarrow> Inr (AList.update (field_key c measurement_type) x fs)))"

text \<open>
  Lines 248 to 259: the flag tag. \<^verbatim>\<open>channel["Flags"][0]\<close> raises \<^verbatim>\<open>IndexError\<close>
  on an empty list.
\<close>

definition flag_tag :: "string list \<Rightarrow> error + string" where
  "flag_tag flags =
     (if ''Valid'' \<in> set flags then Inr ''Valid''
      else (case flags of
              [] \<Rightarrow> Inl IndexError
            | flag0 # rest \<Rightarrow>
                Inr (if length flags > 1
                     then fold (\<lambda>flag flag_string. flag_string @ '', '' @ flag) rest flag0
                     else flag0)))"

text \<open>Lines 233 to 259: one channel, on the fields and tags collected so far.\<close>

definition decode_channel ::
  "'f platform \<Rightarrow> 'f channel \<Rightarrow> (string, 'f) dict \<times> (string, 'f pyval) dict
     \<Rightarrow> error + (string, 'f) dict \<times> (string, 'f pyval) dict" where
  "decode_channel pf c ft =
     (let measurement_available = (PreScaled c \<noteq> PNone) in
      if measurement_available
      then (case fold_err (add_field pf c) measurement_types (fst ft) of
              Inl e \<Rightarrow> Inl e
            | Inr fs \<Rightarrow>
                (case flag_tag (Flags c) of
                   Inl e \<Rightarrow> Inl e
                 | Inr flag_string \<Rightarrow> Inr (fs, AList.update (flag_key c) (PStr flag_string) (snd ft))))
      else Inr ft)"

text \<open>
  Lines 216 to 265: one record of the payload into one container. The metadata loop
  reads \<^verbatim>\<open>self.station_meta[id]\<close> key by key, which is its entries in order.
\<close>

definition decode_measurement ::
  "'f platform \<Rightarrow> (string, (string, 'f pyval) dict) dict \<Rightarrow> string \<Rightarrow> 'f raw_measurement
     \<Rightarrow> error + 'f measurement_container" where
  "decode_measurement pf meta ident m =
     (case strptime pf (TBTimestamp m) of
        Inl e \<Rightarrow> Inl e
      | Inr measurement_time \<Rightarrow>
          (case fold_err (add_location pf m) location_keys [] of
             Inl e \<Rightarrow> Inl e
           | Inr fs0 \<Rightarrow>
               (case fold_err (decode_channel pf) (Channels m) (fs0, []) of
                  Inl e \<Rightarrow> Inl e
                | Inr (fs, ts) \<Rightarrow>
                    (case py_getitem meta ident of
                       Inl e \<Rightarrow> Inl e
                     | Inr station \<Rightarrow>
                         Inr \<lparr>time = measurement_time,
                              measurement = ''ACOEM UK Systems'',
                              fields' = fs,
                              tags = fold (\<lambda>(status, v) t. AList.update status v t) station ts\<rparr>))))"

text \<open>Lines 266 and 267: the container is kept when it has a field.\<close>

definition append_measurement ::
  "'f platform \<Rightarrow> (string, (string, 'f pyval) dict) dict \<Rightarrow> string \<Rightarrow> 'f raw_measurement
     \<Rightarrow> 'f measurement_container list \<Rightarrow> error + 'f measurement_container list" where
  "append_measurement pf meta ident m acc =
     (case decode_measurement pf meta ident m of
        Inl e \<Rightarrow> Inl e
      | Inr measurement_container \<Rightarrow>
          Inr (if length (py_keys (fields' measurement_container)) \<noteq> 0
               then acc @ [measurement_container] else acc))"

text \<open>
  The method, with the answer of the request as an argument. The list stored under
  \<open>ident\<close> starts empty and grows by \<^verbatim>\<open>append\<close>; an exception ends the program, so
  the state is returned only when none is raised.
\<close>

definition dl_station_measurements ::
  "'f platform \<Rightarrow> 'f AcoemRequest \<Rightarrow> string \<Rightarrow> 'f response \<Rightarrow> error + 'f AcoemRequest" where
  "dl_station_measurements pf self ident station_measurements =
     (if data_req_success station_measurements
      then (case json station_measurements of
              Inl e \<Rightarrow> Inl e
            | Inr records \<Rightarrow>
                (case fold_err (append_measurement pf (station_meta self) ident) records [] of
                   Inl e \<Rightarrow> Inl e
                 | Inr containers \<Rightarrow>
                     Inr (self\<lparr>measurement_data :=
                                 AList.update ident containers (measurement_data self)\<rparr>)))
      else Inr self)"

text \<open>
  \<^verbatim>\<open>dl_all_station_measurements\<close> runs the same body for every station of
  \<^verbatim>\<open>station_meta\<close>; \<open>net\<close> is the answer the API gives for each station.
\<close>

definition dl_all_station_measurements ::
  "'f platform \<Rightarrow> 'f AcoemRequest \<Rightarrow> (string \<Rightarrow> 'f response) \<Rightarrow> error + 'f AcoemRequest" where
  "dl_all_station_measurements pf self net =
     (let station_IDs = py_keys (station_meta self) in
      fold_err (\<lambda>ident s. dl_station_measurements pf s ident (net ident)) station_IDs self)"

definition clear_measurements :: "'f AcoemRequest \<Rightarrow> 'f AcoemRequest" where
  "clear_measurements self = self\<lparr>measurement_data := []\<rparr>"

section \<open>The day loop of \<^verbatim>\<open>main.py\<close>\<close>

text \<open>
  Lines 318 to 326 of \<^verbatim>\<open>main.py\<close>: one request per available station, then the
  stations that have an entry in \<^verbatim>\<open>measurement_data\<close>; the csv, json and InfluxDB
  loops that follow run over \<open>stations_with_data\<close> only.
\<close>

definition download_day ::
  "'f platform \<Rightarrow> 'f AcoemRequest \<Rightarrow> string list \<Rightarrow> (string \<Rightarrow> 'f response) \<Rightarrow> error + 'f AcoemRequest" where
  "download_day pf acoem_API available_stations net =
     fold_err (\<lambda>station api. dl_station_measurements pf api station (net station))
       available_stations acoem_API"

definition stations_with_data :: "'f AcoemRequest \<Rightarrow> string list" where
  "stations_with_data acoem_API = py_keys (measurement_data acoem_API)"

section \<open>\<^verbatim>\<open>get_key_classifications\<close>\<close>

record key_classifications =
  key_fields :: "string list"
  key_tags :: "string list"

definition add_key :: "'a \<Rightarrow> 'a list \<Rightarrow> 'a list" where
  "add_key k ks = (if k \<notin> set ks then ks @ [k] else ks)"

definition classify :: "'f measurement_container \<Rightarrow> key_classifications \<Rightarrow> key_classifications" where
  "classify m keys =
     (let keys1 = keys\<lparr>key_fields := fold add_key (py_keys (fields' m)) (key_fields keys)\<rparr>
      in keys1\<lparr>key_tags := fold add_key (py_keys (tags m)) (key_tags keys1)\<rparr>)"

definition get_key_classifications :: "'f AcoemRequest \<Rightarrow> string \<Rightarrow> error + key_classifications" where
  "get_key_classifications self ident =
     (case py_getitem (measurement_data self) ident of
        Inl e \<Rightarrow> Inl e
      | Inr measurements \<Rightarrow> Inr (fold classify measurements \<lparr>key_fields = [], key_tags = []\<rparr>))"

text \<open>
  The order the schema is specified to have: every element once, where it is first seen.
\<close>

fun first_seen :: "'a list \<Rightarrow> 'a list" where
  "first_seen [] = []"
| "first_seen (x # xs) = x # filter (\<lambda>y. y \<noteq> x) (first_seen xs)"

section \<open>Formatting times\<close>

definition pad2 :: "nat \<Rightarrow> string" where
  "pad2 n = [digit_chars ! (n div 10 mod 10), digit_chars ! (n mod 10)]"

definition pad6 :: "int \<Rightarrow> string" where
  "pad6 n = map (\<lambda>p. digit_chars ! nat (n div p mod 10)) [100000, 10000, 1000, 100, 10, 1]"

text \<open>
  \<^verbatim>\<open>strftime('%Y-%m-%d %H:%M:%S')\<close>. The C library prints \<^verbatim>\<open>%Y\<close> as the year in
  decimal without padding (999 for the year 999) and the other fields with two digits.
\<close>

definition strftime_csv :: "datetime \<Rightarrow> string" where
  "strftime_csv t =
     show_nat (year t) @ ''-'' @ pad2 (month t) @ ''-'' @ pad2 (day t) @ '' '' @
     pad2 (hour t) @ '':'' @ pad2 (minute t) @ '':'' @ pad2 (second t)"

text \<open>
  \<^verbatim>\<open>%z\<close>: the sign of the offset, then of its absolute value the hours and minutes,
  the seconds when it is not a whole number of minutes, and the seconds and microseconds
  when it is not a whole number of seconds.
\<close>

definition strftime_z :: "int \<Rightarrow> string" where
  "strftime_z off =
     (if off < 0 then ''-'' else ''+'')
     @ pad2 (nat (\<bar>off\<bar> div 1000000 div 60 div 60)) @ pad2 (nat (\<bar>off\<bar> div 1000000 div 60 mod 60))
     @ (if \<bar>off\<bar> mod 1000000 \<noteq> 0
        then pad2 (nat (\<bar>off\<bar> div 1000000 mod 60)) @ ''.'' @ pad6 (\<bar>off\<bar> mod 1000000)
        else if \<bar>off\<bar> div 1000000 mod 60 \<noteq> 0
        then pad2 (nat (\<bar>off\<bar> div 1000000 mod 60))
        else [])"

text \<open>\<^verbatim>\<open>strftime("%Y-%m-%dT%H:%M:%S%z")\<close>\<close>

definition strftime_iso :: "datetime \<Rightarrow> string" where
  "strftime_iso t =
     show_nat (year t) @ ''-'' @ pad2 (month t) @ ''-'' @ pad2 (day t) @ ''T'' @
     pad2 (hour t) @ '':'' @ pad2 (minute t) @ '':'' @ pad2 (second t) @ strftime_z (utcoffset t)"

section \<open>\<^verbatim>\<open>format_as_csv\<close>\<close>

definition dquote :: char where
  "dquote = CHR 0x22"

definition newline :: char where
  "newline = CHR 0x0A"

text \<open>\<^verbatim>\<open>s.find(sub)\<close>: the index of the first occurrence, or \<open>-1\<close>.\<close>

fun find_from :: "string \<Rightarrow> string \<Rightarrow> int \<Rightarrow> int" where
  "find_from sub [] i = (if sub = [] then i else - 1)"
| "find_from sub (x # xs) i = (if prefix sub (x # xs) then i else find_from sub xs (i + 1))"

definition py_find :: "string \<Rightarrow> string \<Rightarrow> int" where
  "py_find s sub = find_from sub s 0"

text \<open>\<^verbatim>\<open>s[:i]\<close> and \<^verbatim>\<open>s[i:]\<close>; a negative index counts from the end.\<close>

definition slice_to :: "'a list \<Rightarrow> int \<Rightarrow> 'a list" where
  "slice_to s i = (if 0 \<le> i then take (nat i) s else take (length s - nat (- i)) s)"

definition slice_from :: "'a list \<Rightarrow> int \<Rightarrow> 'a list" where
  "slice_from s i = (if 0 \<le> i then drop (nat i) s else drop (length s - nat (- i)) s)"

definition measurement_order :: "string list" where
  "measurement_order = [''PreScaled'', ''Scaled'', ''Flag'', ''Slope'', ''Offset'']"

text \<open>Lines 495 to 499.\<close>

definition add_variable :: "string \<Rightarrow> (string, string) dict \<Rightarrow> (string, string) dict" where
  "add_variable field variables_measured =
     (let prescaled_index = py_find field ''PreScaled'' in
      if prescaled_index \<noteq> - 1
      then (let unit_index = py_find field ''['' in
            AList.update (slice_to field (prescaled_index - 1)) (slice_from field unit_index)
              variables_measured)
      else variables_measured)"

text \<open>Lines 500 to 505.\<close>

definition add_extra_tag :: "string \<Rightarrow> string list \<Rightarrow> string list" where
  "add_extra_tag tag extra_tags =
     (if py_find tag ''['' = - 1 \<and> py_find tag ''Flag'' = - 1 then extra_tags @ [tag] else extra_tags)"

text \<open>Lines 506 to 513.\<close>

definition add_variable_columns :: "string \<times> string \<Rightarrow> string list \<Rightarrow> string list" where
  "add_variable_columns vu csv_header =
     fold (\<lambda>measurement_type h.
             (let unit = (if measurement_type \<notin> set [''Flag''] then '' '' @ snd vu else [])
              in h @ [fst vu @ '' '' @ measurement_type @ unit]))
       measurement_order csv_header"

definition csv_header_of :: "key_classifications \<Rightarrow> string list" where
  "csv_header_of keys =
     (let variables_measured = fold add_variable (key_fields keys) [];
          extra_tags = fold add_extra_tag (key_fields keys @ key_tags keys) [];
          csv_header = fold add_variable_columns variables_measured [''Timestamp'']
      in fold (\<lambda>extra_tag h. h @ [extra_tag]) extra_tags csv_header)"

text \<open>Lines 523 to 535: the text of one cell.\<close>

definition combined_values_of :: "'f measurement_container \<Rightarrow> (string, 'f pyval) dict" where
  "combined_values_of m = py_merge (map (\<lambda>(k, x). (k, PFloat x)) (fields' m)) (tags m)"

definition csv_value :: "'f platform \<Rightarrow> 'f measurement_container \<Rightarrow> string \<Rightarrow> error + string" where
  "csv_value pf m key =
     (let combined_values = combined_values_of m;
          measurement_keys = py_keys combined_values;
          field_keys = py_keys (fields' m)
      in if key \<in> set measurement_keys \<and> key \<in> set field_keys
         then (case py_getitem combined_values key of
                 Inl e \<Rightarrow> Inl e | Inr v \<Rightarrow> Inr (py_str pf v))
         else if key \<in> set measurement_keys
         then (case py_getitem combined_values key of
                 Inl e \<Rightarrow> Inl e | Inr v \<Rightarrow> Inr ([dquote] @ py_str pf v @ [dquote]))
         else Inr [])"

text \<open>Lines 521 to 537: one row appended to the text so far.\<close>

definition csv_row ::
  "'f platform \<Rightarrow> string list \<Rightarrow> 'f measurement_container \<Rightarrow> string \<Rightarrow> error + string" where
  "csv_row pf columns m csv_raw =
     (case fold_err (\<lambda>key raw. case csv_value pf m key of
                                  Inl e \<Rightarrow> Inl e
                                | Inr v \<Rightarrow> Inr (raw @ '', '' @ v))
             columns (csv_raw @ strftime_csv (time m)) of
        Inl e \<Rightarrow> Inl e
      | Inr raw \<Rightarrow> Inr (raw @ [newline]))"

definition format_as_csv ::
  "'f platform \<Rightarrow> 'f AcoemRequest \<Rightarrow> string \<Rightarrow> key_classifications \<Rightarrow> error + string" where
  "format_as_csv pf self ident keys =
     (case py_getitem (measurement_data self) ident of
        Inl e \<Rightarrow> Inl e
      | Inr stored \<Rightarrow>
          (let measurements = rev stored in
           case csv_header_of keys of
             [] \<Rightarrow> Inl IndexError
           | first # columns \<Rightarrow>
               fold_err (csv_row pf columns) measurements
                 (fold (\<lambda>column raw. raw @ '', '' @ column) columns first @ [newline])))"

section \<open>\<^verbatim>\<open>format_as_json\<close>\<close>

record 'f json_container =
  Data :: "(string, 'f) dict"
  Status :: "(string, 'f pyval) dict"

definition json_entry :: "'f measurement_container \<Rightarrow> string \<times> 'f json_container" where
  "json_entry m = (strftime_iso (time m), \<lparr>Data = fields' m, Status = tags m\<rparr>)"

definition format_as_json ::
  "'f AcoemRequest \<Rightarrow> string \<Rightarrow> error + (string, 'f json_container) dict" where
  "format_as_json self ident =
     (case py_getitem (measurement_data self) ident of
        Inl e \<Rightarrow> Inl e
      | Inr stored \<Rightarrow>
          (let measurements = rev stored in
           Inr (fold (\<lambda>m json_measurements.
                        AList.update (fst (json_entry m)) (snd (json_entry m)) json_measurements)
                  measurements [])))"

section \<open>A platform to run the definitions on\<close>

text \<open>
  Concrete inputs need a concrete platform. Here a float is the text \<^verbatim>\<open>str\<close> prints
  for it; \<^verbatim>\<open>float\<close> of a text of the form digits, point, digits is that text, and of
  any other text a \<^verbatim>\<open>ValueError\<close>. The parser accepts the zero-padded forms
  \<^verbatim>\<open>YYYY-MM-DDTHH:MM:SS+HHMM\<close> and \<^verbatim>\<open>YYYY-MM-DDTHH:MM:SS+HHMMSS\<close> of the format
  (CPython accepts a few more spellings, which no statement below relies on).
\<close>

definition digit_of :: "char \<Rightarrow> nat option" where
  "digit_of c = (let n = (of_char c :: nat) in if 48 \<le> n \<and> n \<le> 57 then Some (n - 48) else None)"

fun number_of :: "string \<Rightarrow> nat \<Rightarrow> nat option" where
  "number_of [] acc = Some acc"
| "number_of (c # cs) acc =
     (case digit_of c of None \<Rightarrow> None | Some d \<Rightarrow> number_of cs (10 * acc + d))"

definition leap_year :: "nat \<Rightarrow> bool" where
  "leap_year y = (y mod 4 = 0 \<and> (y mod 100 \<noteq> 0 \<or> y mod 400 = 0))"

definition days_in_month :: "nat \<Rightarrow> nat \<Rightarrow> nat" where
  "days_in_month y m =
     (if m = 2 then (if leap_year y then 29 else 28)
      else if m \<in> set [4, 6, 9, 11] then 30 else 31)"

definition digits_at :: "string \<Rightarrow> nat \<Rightarrow> nat \<Rightarrow> error + nat" where
  "digits_at s i n =
     (case number_of (take n (drop i s)) 0 of None \<Rightarrow> Inl ValueError | Some v \<Rightarrow> Inr v)"

definition strptime_fields :: "string \<Rightarrow> error + nat list" where
  "strptime_fields s =
     fold_err (\<lambda>(i, n) vs. case digits_at s i n of Inl e \<Rightarrow> Inl e | Inr v \<Rightarrow> Inr (vs @ [v]))
       [(0, 4), (5, 2), (8, 2), (11, 2), (14, 2), (17, 2), (20, 2), (22, 2), (24, 2)] []"

fun datetime_of_fields :: "bool \<Rightarrow> nat list \<Rightarrow> error + datetime" where
  "datetime_of_fields west [y, mo, d, h, mi, se, zh, zm, zs] =
     (if 1 \<le> y \<and> 1 \<le> mo \<and> mo \<le> 12 \<and> 1 \<le> d \<and> d \<le> days_in_month y mo
         \<and> h \<le> 23 \<and> mi \<le> 59 \<and> se \<le> 59 \<and> zh \<le> 23 \<and> zm \<le> 59 \<and> zs \<le> 59
      then Inr \<lparr>year = y, month = mo, day = d, hour = h, minute = mi, second = se,
                utcoffset = (if west then - 1 else 1)
                            * ((3600 * int zh + 60 * int zm + int zs) * 1000000)\<rparr>
      else Inl ValueError)"
| "datetime_of_fields west vs = Inl ValueError"

definition strptime_padded :: "string \<Rightarrow> error + datetime" where
  "strptime_padded s =
     (if (length s = 24 \<or> length s = 26)
         \<and> s ! 4 = CHR ''-'' \<and> s ! 7 = CHR ''-'' \<and> s ! 10 = CHR ''T''
         \<and> s ! 13 = CHR '':'' \<and> s ! 16 = CHR '':'' \<and> (s ! 19 = CHR ''+'' \<or> s ! 19 = CHR ''-'')
      then (case strptime_fields s of
              Inl e \<Rightarrow> Inl e
            | Inr vs \<Rightarrow> datetime_of_fields (s ! 19 = CHR ''-'') vs)
      else Inl ValueError)"

definition decimal_text :: "string \<Rightarrow> bool" where
  "decimal_text s =
     (takeWhile (\<lambda>c. c \<noteq> CHR ''.'') s \<noteq> []
      \<and> list_all (\<lambda>c. c \<in> set digit_chars) (takeWhile (\<lambda>c. c \<noteq> CHR ''.'') s)
      \<and> (case dropWhile (\<lambda>c. c \<noteq> CHR ''.'') s of
            [] \<Rightarrow> False
          | point # fraction \<Rightarrow> fraction \<noteq> [] \<and> list_all (\<lambda>c. c \<in> set digit_chars) fraction))"

definition text_platform :: "string platform" where
  "text_platform =
     \<lparr>float_of_int = (\<lambda>n. Inr (show_int n @ ''.0'')),
      float_of_str = (\<lambda>s. if decimal_text s then Inr s else Inl ValueError),
      float_repr = (\<lambda>x. x),
      strptime = strptime_padded\<rparr>"

section \<open>Notions used in the statements\<close>

text \<open>\<^verbatim>\<open>sep.join(xs)\<close>\<close>

fun py_join :: "string \<Rightarrow> string list \<Rightarrow> string" where
  "py_join sep [] = []"
| "py_join sep [x] = x"
| "py_join sep (x # y # ys) = x @ sep @ py_join sep (y # ys)"

text \<open>Every container stored in \<^verbatim>\<open>measurement_data\<close> has at least one field.\<close>

definition every_point_has_a_field :: "'f AcoemRequest \<Rightarrow> bool" where
  "every_point_has_a_field self =
     (\<forall>(ident, points) \<in> set (measurement_data self). \<forall>p \<in> set points. fields' p \<noteq> [])"

text \<open>
  What \<^verbatim>\<open>format_as_csv\<close> prints in a cell, in terms of the two mappings of a
  container: for a key of \<open>tags\<close> the tag's value, in double quotes unless the key is a
  field key as well; for a key of \<open>fields\<close> alone the float as \<^verbatim>\<open>str\<close> prints it;
  for any other key nothing.
\<close>

definition cell_rule :: "'f platform \<Rightarrow> 'f measurement_container \<Rightarrow> string \<Rightarrow> string" where
  "cell_rule pf m key =
     (case map_of (tags m) key of
        Some v \<Rightarrow> if key \<in> set (py_keys (fields' m)) then py_str pf v
                  else [dquote] @ py_str pf v @ [dquote]
      | None \<Rightarrow> (case map_of (fields' m) key of Some x \<Rightarrow> float_repr pf x | None \<Rightarrow> []))"

text \<open>
  The timestamp format \<^verbatim>\<open>YYYY-MM-DDTHH:MM:SS+HHMM\<close> (or \<^verbatim>\<open>-HHMM\<close>) as the
  specification words it, independently of \<^verbatim>\<open>strftime\<close>: the year in four digits,
  month, day, hour, minute and second in two digits each, the sign of the offset and its
  hours and minutes in two digits each. \<open>iso_format\<close> is the shape alone.
\<close>

definition pad4 :: "nat \<Rightarrow> string" where
  "pad4 n = [digit_chars ! (n div 1000 mod 10), digit_chars ! (n div 100 mod 10),
             digit_chars ! (n div 10 mod 10), digit_chars ! (n mod 10)]"

definition iso_offset :: "int \<Rightarrow> string" where
  "iso_offset off =
     (if off < 0 then ''-'' else ''+'') @ pad2 (nat (\<bar>off\<bar> div 3600000000))
       @ pad2 (nat (\<bar>off\<bar> div 60000000 mod 60))"

definition iso_timestamp :: "datetime \<Rightarrow> string" where
  "iso_timestamp t =
     pad4 (year t) @ ''-'' @ pad2 (month t) @ ''-'' @ pad2 (day t) @ ''T'' @
     pad2 (hour t) @ '':'' @ pad2 (minute t) @ '':'' @ pad2 (second t) @ iso_offset (utcoffset t)"

definition iso_format :: "string \<Rightarrow> bool" where
  "iso_format s =
     (length s = 24 \<and> s ! 4 = CHR ''-'' \<and> s ! 7 = CHR ''-'' \<and> s ! 10 = CHR ''T''
      \<and> s ! 13 = CHR '':'' \<and> s ! 16 = CHR '':'' \<and> (s ! 19 = CHR ''+'' \<or> s ! 19 = CHR ''-'')
      \<and> list_all (\<lambda>i. s ! i \<in> set digit_chars)
           [0, 1, 2, 3, 5, 6, 8, 9, 11, 12, 14, 15, 17, 18, 20, 21, 22, 23])"

text \<open>
  The ranges of the fields of a \<^verbatim>\<open>datetime\<close> (an offset is strictly between minus
  and plus 24 hours), and the two conditions under which its timestamp has the format
  above: a year of four digits and an offset of whole minutes.
\<close>

definition datetime_ok :: "datetime \<Rightarrow> bool" where
  "datetime_ok t =
     (1 \<le> year t \<and> year t \<le> 9999 \<and> 1 \<le> month t \<and> month t \<le> 12 \<and> 1 \<le> day t \<and> day t \<le> 31
      \<and> hour t \<le> 23 \<and> minute t \<le> 59 \<and> second t \<le> 59 \<and> \<bar>utcoffset t\<bar> < 86400000000)"

definition iso_datetime :: "datetime \<Rightarrow> bool" where
  "iso_datetime t = (datetime_ok t \<and> 1000 \<le> year t \<and> utcoffset t mod 60000000 = 0)"

section \<open>The example record\<close>

text \<open>
  The record of the end-to-end scenario: one channel PM25 with the four floats \<open>a\<close>,
  \<open>b\<close>, \<open>s\<close>, \<open>d\<close> for PreScaled, Scaled, Slope and Offset, the container it decodes to
  and the key classification of that container.
\<close>

definition section8_time :: datetime where
  "section8_time =
     \<lparr>year = 2021, month = 6, day = 1, hour = 0, minute = 0, second = 0, utcoffset = 0\<rparr>"

definition section8_channel :: "'f \<Rightarrow> 'f \<Rightarrow> 'f \<Rightarrow> 'f \<Rightarrow> 'f channel" where
  "section8_channel a b s d =
     \<lparr>SensorName = ''PM25'', UnitName = ''ug/m3'',
      PreScaled = PFloat a, Scaled = PFloat b, Slope = PFloat s, Offset = PFloat d,
      Flags = [''Valid'']\<rparr>"

definition section8_record :: "'f \<Rightarrow> 'f \<Rightarrow> 'f \<Rightarrow> 'f \<Rightarrow> 'f raw_measurement" where
  "section8_record a b s d =
     \<lparr>TBTimestamp = ''2021-06-01T00:00:00+0000'',
      Latitude = PNone, Longitude = PNone, Altitude = PNone,
      Channels = [section8_channel a b s d]\<rparr>"

definition section8_point :: "'f \<Rightarrow> 'f \<Rightarrow> 'f \<Rightarrow> 'f \<Rightarrow> 'f measurement_container" where
  "section8_point a b s d =
     \<lparr>time = section8_time,
      measurement = ''ACOEM UK Systems'',
      fields' = [(''PM25 PreScaled [ug/m3]'', a), (''PM25 Scaled [ug/m3]'', b),
                 (''PM25 Slope [ug/m3]'', s), (''PM25 Offset [ug/m3]'', d)],
      tags = [(''PM25 Flag'', PStr ''Valid''), (''SerialNumber'', PStr ''ABC123'')]\<rparr>"

definition section8_keys :: key_classifications where
  "section8_keys =
     \<lparr>key_fields = [''PM25 PreScaled [ug/m3]'', ''PM25 Scaled [ug/m3]'',
                    ''PM25 Slope [ug/m3]'', ''PM25 Offset [ug/m3]''],
      key_tags = [''PM25 Flag'', ''SerialNumber'']\<rparr>"

text \<open>The same on the platform above, with two stations of which the second has no data.\<close>

definition pm25 :: "string channel" where
  "pm25 = section8_channel ''10.0'' ''9.5'' ''1.0'' ''0.1''"

definition example_record :: "string raw_measurement" where
  "example_record = section8_record ''10.0'' ''9.5'' ''1.0'' ''0.1''"

definition example_point :: "string measurement_container" where
  "example_point = section8_point ''10.0'' ''9.5'' ''1.0'' ''0.1''"

definition example_meta :: "(string, (string, string pyval) dict) dict" where
  "example_meta =
     [(''station-1'', [(''SerialNumber'', PStr ''ABC123'')]),
      (''station-2'', [(''SerialNumber'', PStr ''XYZ789'')])]"

definition example_api :: "string AcoemRequest" where
  "example_api = \<lparr>station_meta = example_meta, measurement_data = []\<rparr>"

definition example_day :: "string AcoemRequest" where
  "example_day =
     \<lparr>station_meta = example_meta, measurement_data = [(''station-1'', [example_point])]\<rparr>"

definition response_of :: "string raw_measurement list \<Rightarrow> string response" where
  "response_of records = \<lparr>status_code = 200, content = ''[...]'', json = Inr records\<rparr>"

definition no_data_response :: "string response" where
  "no_data_response =
     \<lparr>status_code = 200, content = no_data_marker, json = Inl JSONDecodeError\<rparr>"

definition example_net :: "string \<Rightarrow> string response" where
  "example_net station =
     (if station = ''station-1'' then response_of [example_record] else no_data_response)"

text \<open>
  Station metadata with an attribute named like a field of the channel, and the container
  the example record decodes to with it: one key is both a field and a tag.
\<close>

definition clash_meta :: "(string, (string, string pyval) dict) dict" where
  "clash_meta = [(''station-1'', [(''PM25 PreScaled [ug/m3]'', PStr ''n/a'')])]"

definition clash_point :: "string measurement_container" where
  "clash_point =
     example_point\<lparr>tags := [(''PM25 Flag'', PStr ''Valid''), (''PM25 PreScaled [ug/m3]'', PStr ''n/a'')]\<rparr>"

definition clash_day :: "string AcoemRequest" where
  "clash_day = \<lparr>station_meta = clash_meta, measurement_data = [(''station-1'', [clash_point])]\<rparr>"

definition clash_keys :: key_classifications where
  "clash_keys = section8_keys\<lparr>key_tags := [''PM25 Flag'', ''PM25 PreScaled [ug/m3]'']\<rparr>"

text \<open>
  The example record at three other timestamps: ninety minutes west of UTC, thirty
  seconds east of UTC, and in the year 999.
\<close>

definition west_record :: "string raw_measurement" where
  "west_record = example_record\<lparr>TBTimestamp := ''2021-06-01T12:34:56-0130''\<rparr>"

definition west_point :: "string measurement_container" where
  "west_point =
     example_point\<lparr>time := \<lparr>year = 2021, month = 6, day = 1, hour = 12, minute = 34, second = 56,
                             utcoffset = - 5400000000\<rparr>\<rparr>"

definition west_day :: "string AcoemRequest" where
  "west_day =
     \<lparr>station_meta = example_meta,
      measurement_data = [(''station-1'', [example_point, west_point])]\<rparr>"

definition seconds_record :: "string raw_measurement" where
  "seconds_record = example_record\<lparr>TBTimestamp := ''2021-06-01T00:00:00+000030''\<rparr>"

definition seconds_point :: "string measurement_container" where
  "seconds_point = example_point\<lparr>time := section8_time\<lparr>utcoffset := 30000000\<rparr>\<rparr>"

definition early_record :: "string raw_measurement" where
  "early_record = example_record\<lparr>TBTimestamp := ''0999-06-01T00:00:00+0000''\<rparr>"

definition early_point :: "string measurement_container" where
  "early_point = example_point\<lparr>time := section8_time\<lparr>year := 999\<rparr>\<rparr>"

definition odd_day :: "string AcoemRequest" where
  "odd_day =
     \<lparr>station_meta = example_meta,
      measurement_data = [(''station-1'', [seconds_point, early_point])]\<rparr>"

text \<open>Two containers with one timestamp.\<close>

definition battery_point :: "string measurement_container" where
  "battery_point = example_point\<lparr>tags := [(''Battery'', PStr ''ok'')]\<rparr>"

definition twin_day :: "string AcoemRequest" where
  "twin_day =
     \<lparr>station_meta = example_meta,
      measurement_data = [(''station-1'', [example_point, battery_point])]\<rparr>"

section \<open>Loops that may raise\<close>

lemma fold_err_append:
  "fold_err f (xs @ ys) s = (case fold_err f xs s of Inl e \<Rightarrow> Inl e | Inr s' \<Rightarrow> fold_err f ys s')"
  by (induction xs arbitrary: s) (auto split: sum.splits)

lemma fold_err_fails:
  "x \<in> set xs \<Longrightarrow> (\<And>s. \<exists>e. f x s = Inl e) \<Longrightarrow> \<exists>e. fold_err f xs s = Inl e"
proof (induction xs arbitrary: s)
  case Nil
  then show ?case by simp
next
  case (Cons y ys)
  show ?case
  proof (cases "f y s")
    case (Inl e)
    then show ?thesis by simp
  next
    case (Inr s')
    show ?thesis
    proof (cases "x = y")
      case True
      with Cons.prems(2)[of s] Inr show ?thesis by simp
    next
      case False
      with Cons.prems have "x \<in> set ys" by simp
      from Cons.IH[OF this Cons.prems(2)] Inr show ?thesis by simp
    qed
  qed
qed

lemma fold_err_invariant:
  assumes "fold_err f xs s = Inr s'" and "P s"
    and "\<And>x t t'. P t \<Longrightarrow> f x t = Inr t' \<Longrightarrow> P t'"
  shows "P s'"
  using assms(1,2)
proof (induction xs arbitrary: s)
  case Nil
  then show ?case by simp
next
  case (Cons x xs)
  from Cons.prems(1) obtain t where 1: "f x s = Inr t" and 2: "fold_err f xs t = Inr s'"
    by (auto split: sum.splits)
  from assms(3)[OF Cons.prems(2) 1] have "P t" .
  from Cons.IH[OF 2 this] show ?case .
qed

section \<open>Unavailable channels\<close>

lemma decode_channel_unavailable:
  "PreScaled c = PNone \<Longrightarrow> decode_channel pf c ft = Inr ft"
  by (simp add: decode_channel_def)

lemma add_location_Channels:
  "add_location pf (m\<lparr>Channels := cs\<rparr>) = add_location pf m"
  by (intro ext) (simp add: add_location_def measurement_item_def)

text \<open>
  C4. A channel whose PreScaled value is null adds no field and no flag tag: the decoder
  returns the fields and tags it was given, without an error, and a record decodes to
  the same result with that channel as without it.
\<close>

theorem unavailable_channel_contributes_nothing:
  assumes "PreScaled c = PNone"
  shows "decode_channel pf c (fs, ts) = Inr (fs, ts)
       \<and> decode_measurement pf meta ident (m\<lparr>Channels := cs1 @ c # cs2\<rparr>)
         = decode_measurement pf meta ident (m\<lparr>Channels := cs1 @ cs2\<rparr>)"
proof
  show "decode_channel pf c (fs, ts) = Inr (fs, ts)"
    using assms by (rule decode_channel_unavailable)
  have "fold_err (decode_channel pf) (cs1 @ c # cs2) t = fold_err (decode_channel pf) (cs1 @ cs2) t" for t
    using assms by (simp add: fold_err_append decode_channel_unavailable split: sum.splits)
  then show "decode_measurement pf meta ident (m\<lparr>Channels := cs1 @ c # cs2\<rparr>)
         = decode_measurement pf meta ident (m\<lparr>Channels := cs1 @ cs2\<rparr>)"
    by (simp add: decode_measurement_def add_location_Channels cong: sum.case_cong)
qed

theorem unavailable_channel_contributes_nothing_witness:
  "PreScaled (pm25\<lparr>PreScaled := PNone\<rparr>) = PNone
   \<and> decode_channel text_platform (pm25\<lparr>PreScaled := PNone\<rparr>) ([], []) = Inr ([], [])
   \<and> decode_measurement text_platform example_meta ''station-1''
         (example_record\<lparr>Channels := [pm25] @ pm25\<lparr>PreScaled := PNone\<rparr> # []\<rparr>)
       = decode_measurement text_platform example_meta ''station-1''
           (example_record\<lparr>Channels := [pm25] @ []\<rparr>)"
  using unavailable_channel_contributes_nothing
    [where c = "pm25\<lparr>PreScaled := PNone\<rparr>" and pf = text_platform and fs = "[]" and ts = "[]"
       and meta = example_meta and ident = "''station-1''" and m = example_record
       and ?cs1.0 = "[pm25]" and ?cs2.0 = "[]"]
  by simp

section \<open>Available channels\<close>

lemma fold_sep:
  "fold (\<lambda>flag flag_string. flag_string @ sep @ flag) rest acc = acc @ concat (map (\<lambda>f. sep @ f) rest)"
  by (induction rest arbitrary: acc) auto

lemma py_join_Cons: "py_join sep (x # rest) = x @ concat (map (\<lambda>f. sep @ f) rest)"
  by (induction rest arbitrary: x) auto

lemma fold_flags_join:
  "fold (\<lambda>flag flag_string. flag_string @ sep @ flag) rest x = py_join sep (x # rest)"
  by (simp add: fold_sep py_join_Cons)

lemma flag_tag_nonempty:
  "flags \<noteq> [] \<Longrightarrow>
   flag_tag flags = Inr (if ''Valid'' \<in> set flags then ''Valid'' else py_join '', '' flags)"
  by (cases flags) (auto simp: flag_tag_def fold_flags_join[where sep = "'', ''", simplified])

lemma flag_tag_empty: "flag_tag [] = Inl IndexError"
  by (simp add: flag_tag_def)

lemma add_fields_ok:
  assumes "py_float pf (PreScaled c) = Inr a" "py_float pf (Scaled c) = Inr b"
    "py_float pf (Slope c) = Inr s" "py_float pf (Offset c) = Inr d"
  shows "fold_err (add_field pf c) measurement_types fs =
     Inr (AList.update (field_key c ''Offset'') d (AList.update (field_key c ''Slope'') s
           (AList.update (field_key c ''Scaled'') b (AList.update (field_key c ''PreScaled'') a fs))))"
  using assms by (simp add: measurement_types_def add_field_def channel_item_def)

lemma field_keys_distinct:
  "distinct [field_key c ''PreScaled'', field_key c ''Scaled'', field_key c ''Slope'', field_key c ''Offset'']"
  by (simp add: field_key_def)

lemma add_fields_cases:
  "fold_err (add_field pf c) measurement_types fs =
     (case py_float pf (PreScaled c) of
        Inl e \<Rightarrow> Inl e
      | Inr a \<Rightarrow>
          (case py_float pf (Scaled c) of
             Inl e \<Rightarrow> Inl e
           | Inr b \<Rightarrow>
               (case py_float pf (Slope c) of
                  Inl e \<Rightarrow> Inl e
                | Inr s \<Rightarrow>
                    (case py_float pf (Offset c) of
                       Inl e \<Rightarrow> Inl e
                     | Inr d \<Rightarrow>
                         Inr (AList.update (field_key c ''Offset'') d
                               (AList.update (field_key c ''Slope'') s
                                 (AList.update (field_key c ''Scaled'') b
                                   (AList.update (field_key c ''PreScaled'') a fs))))))))"
  by (simp add: measurement_types_def add_field_def channel_item_def split: sum.splits)

text \<open>
  C5, as stated, promises four fields and a flag tag for every channel with a PreScaled
  value. Two such channels get neither: with an empty flag list the decoder raises
  IndexError, and with a null Scaled value it raises TypeError.
\<close>

theorem available_channel_counterexample:
  "PreScaled (pm25\<lparr>Flags := []\<rparr>) \<noteq> PNone
   \<and> decode_channel text_platform (pm25\<lparr>Flags := []\<rparr>) ([], []) = Inl IndexError
   \<and> PreScaled (pm25\<lparr>Scaled := PNone\<rparr>) \<noteq> PNone
   \<and> decode_channel text_platform (pm25\<lparr>Scaled := PNone\<rparr>) ([], []) = Inl TypeError"
  by (simp add: pm25_def section8_channel_def decode_channel_def measurement_types_def
      add_field_def channel_item_def flag_tag_def)

text \<open>
  C5, amended. A channel with a PreScaled value is decoded in this order: the four
  values PreScaled, Scaled, Slope and Offset go through \<^verbatim>\<open>float\<close>, then the flag
  list is read. When \<^verbatim>\<open>float\<close> accepts the four values and the flag list is not
  empty, the decoder stores exactly the four floats under the four distinct keys
  \<^verbatim>\<open>"<SensorName> <type> [<UnitName>]"\<close> and one tag \<^verbatim>\<open>"<SensorName> Flag"\<close>: the
  text Valid when Valid is among the flags, otherwise all flags in their order joined by
  a comma and a space. In every other case the decoder raises and returns no fields and
  no tags: the error of \<^verbatim>\<open>float\<close> on the first of the four values it rejects, or
  IndexError when the four values are accepted and the flag list is empty.
\<close>

theorem available_channel_fields_and_flag:
  assumes "PreScaled c \<noteq> PNone"
  shows "(py_float pf (PreScaled c) = Inr a \<and> py_float pf (Scaled c) = Inr b
            \<and> py_float pf (Slope c) = Inr s \<and> py_float pf (Offset c) = Inr d \<and> Flags c \<noteq> []
          \<longrightarrow> decode_channel pf c (fs, ts) =
           Inr (AList.update (SensorName c @ '' Offset ['' @ UnitName c @ '']'') d
                 (AList.update (SensorName c @ '' Slope ['' @ UnitName c @ '']'') s
                   (AList.update (SensorName c @ '' Scaled ['' @ UnitName c @ '']'') b
                     (AList.update (SensorName c @ '' PreScaled ['' @ UnitName c @ '']'') a fs))),
                AList.update (SensorName c @ '' Flag'')
                  (PStr (if ''Valid'' \<in> set (Flags c) then ''Valid'' else py_join '', '' (Flags c))) ts))
       \<and> distinct [SensorName c @ '' PreScaled ['' @ UnitName c @ '']'',
                   SensorName c @ '' Scaled ['' @ UnitName c @ '']'',
                   SensorName c @ '' Slope ['' @ UnitName c @ '']'',
                   SensorName c @ '' Offset ['' @ UnitName c @ '']'']
       \<and> (py_float pf (PreScaled c) = Inl e \<longrightarrow> decode_channel pf c (fs, ts) = Inl e)
       \<and> (py_float pf (PreScaled c) = Inr a \<and> py_float pf (Scaled c) = Inl e
            \<longrightarrow> decode_channel pf c (fs, ts) = Inl e)
       \<and> (py_float pf (PreScaled c) = Inr a \<and> py_float pf (Scaled c) = Inr b
            \<and> py_float pf (Slope c) = Inl e
            \<longrightarrow> decode_channel pf c (fs, ts) = Inl e)
       \<and> (py_float pf (PreScaled c) = Inr a \<and> py_float pf (Scaled c) = Inr b
            \<and> py_float pf (Slope c) = Inr s \<and> py_float pf (Offset c) = Inl e
            \<longrightarrow> decode_channel pf c (fs, ts) = Inl e)
       \<and> (py_float pf (PreScaled c) = Inr a \<and> py_float pf (Scaled c) = Inr b
            \<and> py_float pf (Slope c) = Inr s \<and> py_float pf (Offset c) = Inr d \<and> Flags c = []
            \<longrightarrow> decode_channel pf c (fs, ts) = Inl IndexError)"
proof (intro conjI impI)
  assume "py_float pf (PreScaled c) = Inr a \<and> py_float pf (Scaled c) = Inr b
            \<and> py_float pf (Slope c) = Inr s \<and> py_float pf (Offset c) = Inr d \<and> Flags c \<noteq> []"
  then show "decode_channel pf c (fs, ts) =
           Inr (AList.update (SensorName c @ '' Offset ['' @ UnitName c @ '']'') d
                 (AList.update (SensorName c @ '' Slope ['' @ UnitName c @ '']'') s
                   (AList.update (SensorName c @ '' Scaled ['' @ UnitName c @ '']'') b
                     (AList.update (SensorName c @ '' PreScaled ['' @ UnitName c @ '']'') a fs))),
                AList.update (SensorName c @ '' Flag'')
                  (PStr (if ''Valid'' \<in> set (Flags c) then ''Valid'' else py_join '', '' (Flags c))) ts)"
    using assms
    by (simp add: decode_channel_def add_fields_cases flag_tag_nonempty field_key_def flag_key_def)
next
  show "distinct [SensorName c @ '' PreScaled ['' @ UnitName c @ '']'',
                   SensorName c @ '' Scaled ['' @ UnitName c @ '']'',
                   SensorName c @ '' Slope ['' @ UnitName c @ '']'',
                   SensorName c @ '' Offset ['' @ UnitName c @ '']'']"
    by simp
next
  assume "py_float pf (PreScaled c) = Inl e"
  then show "decode_channel pf c (fs, ts) = Inl e"
    using assms by (simp add: decode_channel_def add_fields_cases)
next
  assume "py_float pf (PreScaled c) = Inr a \<and> py_float pf (Scaled c) = Inl e"
  then show "decode_channel pf c (fs, ts) = Inl e"
    using assms by (simp add: decode_channel_def add_fields_cases)
next
  assume "py_float pf (PreScaled c) = Inr a \<and> py_float pf (Scaled c) = Inr b
            \<and> py_float pf (Slope c) = Inl e"
  then show "decode_channel pf c (fs, ts) = Inl e"
    using assms by (simp add: decode_channel_def add_fields_cases)
next
  assume "py_float pf (PreScaled c) = Inr a \<and> py_float pf (Scaled c) = Inr b
            \<and> py_float pf (Slope c) = Inr s \<and> py_float pf (Offset c) = Inl e"
  then show "decode_channel pf c (fs, ts) = Inl e"
    using assms by (simp add: decode_channel_def add_fields_cases)
next
  assume "py_float pf (PreScaled c) = Inr a \<and> py_float pf (Scaled c) = Inr b
            \<and> py_float pf (Slope c) = Inr s \<and> py_float pf (Offset c) = Inr d \<and> Flags c = []"
  then show "decode_channel pf c (fs, ts) = Inl IndexError"
    using assms by (simp add: decode_channel_def add_fields_cases flag_tag_empty)
qed


lemma pm25_casts:
  "py_float text_platform (PFloat ''10.0'') = Inr ''10.0''"
  "py_float text_platform (PFloat ''9.5'') = Inr ''9.5''"
  "py_float text_platform (PFloat ''1.0'') = Inr ''1.0''"
  "py_float text_platform (PFloat ''0.1'') = Inr ''0.1''"
  "py_float text_platform (PStr ''n/a'') = Inl ValueError"
  "py_float text_platform PNone = Inl TypeError"
  "float_of_str text_platform ''n/a'' = Inl ValueError"
  by code_simp+

theorem available_channel_fields_and_flag_witness:
  "PreScaled (pm25\<lparr>Flags := [''Calibration'', ''OutOfRange'']\<rparr>) \<noteq> PNone
   \<and> py_float text_platform (PreScaled (pm25\<lparr>Flags := [''Calibration'', ''OutOfRange'']\<rparr>)) = Inr ''10.0''
   \<and> py_float text_platform (Scaled (pm25\<lparr>Flags := [''Calibration'', ''OutOfRange'']\<rparr>)) = Inr ''9.5''
   \<and> py_float text_platform (Slope (pm25\<lparr>Flags := [''Calibration'', ''OutOfRange'']\<rparr>)) = Inr ''1.0''
   \<and> py_float text_platform (Offset (pm25\<lparr>Flags := [''Calibration'', ''OutOfRange'']\<rparr>)) = Inr ''0.1''
   \<and> Flags (pm25\<lparr>Flags := [''Calibration'', ''OutOfRange'']\<rparr>) \<noteq> []
   \<and> decode_channel text_platform (pm25\<lparr>Flags := [''Calibration'', ''OutOfRange'']\<rparr>) ([], [])
       = Inr ([(''PM25 PreScaled [ug/m3]'', ''10.0''), (''PM25 Scaled [ug/m3]'', ''9.5''),
               (''PM25 Slope [ug/m3]'', ''1.0''), (''PM25 Offset [ug/m3]'', ''0.1'')],
              [(''PM25 Flag'', PStr ''Calibration, OutOfRange'')])
   \<and> decode_channel text_platform (pm25\<lparr>Flags := [''Calibration'', ''Valid'']\<rparr>) ([], [])
       = Inr ([(''PM25 PreScaled [ug/m3]'', ''10.0''), (''PM25 Scaled [ug/m3]'', ''9.5''),
               (''PM25 Slope [ug/m3]'', ''1.0''), (''PM25 Offset [ug/m3]'', ''0.1'')],
              [(''PM25 Flag'', PStr ''Valid'')])
   \<and> PreScaled (pm25\<lparr>PreScaled := PStr ''n/a''\<rparr>) \<noteq> PNone
   \<and> py_float text_platform (PreScaled (pm25\<lparr>PreScaled := PStr ''n/a''\<rparr>)) = Inl ValueError
   \<and> decode_channel text_platform (pm25\<lparr>PreScaled := PStr ''n/a''\<rparr>) ([], []) = Inl ValueError
   \<and> py_float text_platform (Scaled (pm25\<lparr>Scaled := PNone\<rparr>)) = Inl TypeError
   \<and> decode_channel text_platform (pm25\<lparr>Scaled := PNone\<rparr>) ([], []) = Inl TypeError
   \<and> py_float text_platform (Slope (pm25\<lparr>Slope := PStr ''n/a''\<rparr>)) = Inl ValueError
   \<and> decode_channel text_platform (pm25\<lparr>Slope := PStr ''n/a''\<rparr>) ([], []) = Inl ValueError
   \<and> py_float text_platform (Offset (pm25\<lparr>Offset := PNone\<rparr>)) = Inl TypeError
   \<and> decode_channel text_platform (pm25\<lparr>Offset := PNone\<rparr>) ([], []) = Inl TypeError
   \<and> Flags (pm25\<lparr>Flags := []\<rparr>) = []
   \<and> decode_channel text_platform (pm25\<lparr>Flags := []\<rparr>) ([], []) = Inl IndexError"
proof -
  note defs = pm25_def section8_channel_def pm25_casts
  note t = available_channel_fields_and_flag[where pf = text_platform and fs = "[]" and ts = "[]"
      and a = "''10.0''" and b = "''9.5''" and s = "''1.0''" and d = "''0.1''"]
  have 1: "PreScaled (pm25\<lparr>Flags := [''Calibration'', ''OutOfRange'']\<rparr>) \<noteq> PNone"
    by (simp add: defs)
  have 2: "py_float text_platform (PreScaled (pm25\<lparr>Flags := [''Calibration'', ''OutOfRange'']\<rparr>)) = Inr ''10.0''
    \<and> py_float text_platform (Scaled (pm25\<lparr>Flags := [''Calibration'', ''OutOfRange'']\<rparr>)) = Inr ''9.5''
    \<and> py_float text_platform (Slope (pm25\<lparr>Flags := [''Calibration'', ''OutOfRange'']\<rparr>)) = Inr ''1.0''
    \<and> py_float text_platform (Offset (pm25\<lparr>Flags := [''Calibration'', ''OutOfRange'']\<rparr>)) = Inr ''0.1''
    \<and> Flags (pm25\<lparr>Flags := [''Calibration'', ''OutOfRange'']\<rparr>) \<noteq> []"
    by (simp add: defs)
  have 3: "decode_channel text_platform (pm25\<lparr>Flags := [''Calibration'', ''OutOfRange'']\<rparr>) ([], [])
       = Inr ([(''PM25 PreScaled [ug/m3]'', ''10.0''), (''PM25 Scaled [ug/m3]'', ''9.5''),
               (''PM25 Slope [ug/m3]'', ''1.0''), (''PM25 Offset [ug/m3]'', ''0.1'')],
              [(''PM25 Flag'', PStr ''Calibration, OutOfRange'')])"
    using t[OF 1, THEN conjunct1, THEN mp, OF 2] by (simp add: defs)
  have 4: "decode_channel text_platform (pm25\<lparr>Flags := [''Calibration'', ''Valid'']\<rparr>) ([], [])
       = Inr ([(''PM25 PreScaled [ug/m3]'', ''10.0''), (''PM25 Scaled [ug/m3]'', ''9.5''),
               (''PM25 Slope [ug/m3]'', ''1.0''), (''PM25 Offset [ug/m3]'', ''0.1'')],
              [(''PM25 Flag'', PStr ''Valid'')])"
    using t[where c = "pm25\<lparr>Flags := [''Calibration'', ''Valid'']\<rparr>", THEN conjunct1, THEN mp]
    by (simp add: defs)
  have 5: "PreScaled (pm25\<lparr>PreScaled := PStr ''n/a''\<rparr>) \<noteq> PNone
    \<and> py_float text_platform (PreScaled (pm25\<lparr>PreScaled := PStr ''n/a''\<rparr>)) = Inl ValueError"
    by (simp add: defs)
  have 6: "decode_channel text_platform (pm25\<lparr>PreScaled := PStr ''n/a''\<rparr>) ([], []) = Inl ValueError"
    using t[where c = "pm25\<lparr>PreScaled := PStr ''n/a''\<rparr>" and e = ValueError,
        THEN conjunct2, THEN conjunct2, THEN conjunct1, THEN mp]
    by (simp add: defs)
  have 7: "py_float text_platform (Scaled (pm25\<lparr>Scaled := PNone\<rparr>)) = Inl TypeError"
    by (simp add: defs)
  have 8: "decode_channel text_platform (pm25\<lparr>Scaled := PNone\<rparr>) ([], []) = Inl TypeError"
    using t[where c = "pm25\<lparr>Scaled := PNone\<rparr>" and e = TypeError,
        THEN conjunct2, THEN conjunct2, THEN conjunct2, THEN conjunct1, THEN mp]
    by (simp add: defs)
  have 9: "py_float text_platform (Slope (pm25\<lparr>Slope := PStr ''n/a''\<rparr>)) = Inl ValueError"
    by (simp add: defs)
  have 10: "decode_channel text_platform (pm25\<lparr>Slope := PStr ''n/a''\<rparr>) ([], []) = Inl ValueError"
    using t[where c = "pm25\<lparr>Slope := PStr ''n/a''\<rparr>" and e = ValueError,
        THEN conjunct2, THEN conjunct2, THEN conjunct2, THEN conjunct2, THEN conjunct1, THEN mp]
    by (simp add: defs)
  have 11: "py_float text_platform (Offset (pm25\<lparr>Offset := PNone\<rparr>)) = Inl TypeError"
    by (simp add: defs)
  have 12: "decode_channel text_platform (pm25\<lparr>Offset := PNone\<rparr>) ([], []) = Inl TypeError"
    using t[where c = "pm25\<lparr>Offset := PNone\<rparr>" and e = TypeError,
        THEN conjunct2, THEN conjunct2, THEN conjunct2, THEN conjunct2, THEN conjunct2,
        THEN conjunct1, THEN mp]
    by (simp add: defs)
  have 13: "Flags (pm25\<lparr>Flags := []\<rparr>) = []"
    by simp
  have 14: "decode_channel text_platform (pm25\<lparr>Flags := []\<rparr>) ([], []) = Inl IndexError"
    using t[where c = "pm25\<lparr>Flags := []\<rparr>",
        THEN conjunct2, THEN conjunct2, THEN conjunct2, THEN conjunct2, THEN conjunct2,
        THEN conjunct2, THEN mp]
    by (simp add: defs)
  show ?thesis
    by (intro conjI)
      (rule 1 2[THEN conjunct1] 2[THEN conjunct2, THEN conjunct1]
         2[THEN conjunct2, THEN conjunct2, THEN conjunct1]
         2[THEN conjunct2, THEN conjunct2, THEN conjunct2, THEN conjunct1]
         2[THEN conjunct2, THEN conjunct2, THEN conjunct2, THEN conjunct2]
         3 4 5[THEN conjunct1] 5[THEN conjunct2] 6 7 8 9 10 11 12 13 14)+
qed

section \<open>Empty flag lists\<close>

lemma decode_channel_empty_flags:
  "PreScaled c \<noteq> PNone \<Longrightarrow> Flags c = [] \<Longrightarrow> \<exists>e. decode_channel pf c ft = Inl e"
  by (simp add: decode_channel_def flag_tag_empty split: sum.splits)

lemma decode_measurement_empty_flags:
  assumes "c \<in> set (Channels m)" "PreScaled c \<noteq> PNone" "Flags c = []"
  shows "\<exists>e. decode_measurement pf meta ident m = Inl e"
proof -
  have "\<exists>e. fold_err (decode_channel pf) (Channels m) t = Inl e" for t
    using assms(1) decode_channel_empty_flags[OF assms(2,3)] by (rule fold_err_fails)
  then have "fold_err (decode_channel pf) (Channels m) t \<noteq> Inr ft" for t ft
    by (metis Inl_Inr_False)
  then show ?thesis
    by (auto simp: decode_measurement_def split: sum.splits)
qed

text \<open>
  C9. A record with an available channel whose flag list is empty never decodes to a
  container: \<^verbatim>\<open>decode_measurement\<close> raises, and so does the download of a payload
  that holds such a record. When the four values of the channel pass \<^verbatim>\<open>float\<close>, the
  error of the channel is the IndexError of \<^verbatim>\<open>channel["Flags"][0]\<close>, and it is
  the error of the record when the timestamp, the location values and the channels before
  it raise none.
\<close>

theorem empty_flag_list_raises:
  assumes "c \<in> set (Channels m)" and "PreScaled c \<noteq> PNone" and "Flags c = []"
  shows "(\<exists>e. decode_measurement pf meta ident m = Inl e)
       \<and> (py_float pf (PreScaled c) = Inr a \<and> py_float pf (Scaled c) = Inr b
            \<and> py_float pf (Slope c) = Inr s \<and> py_float pf (Offset c) = Inr d
          \<longrightarrow> decode_channel pf c (fs, ts) = Inl IndexError
            \<and> (strptime pf (TBTimestamp m) = Inr t
                 \<and> fold_err (add_location pf m) location_keys [] = Inr fs0
                 \<and> Channels m = cs1 @ c # cs2
                 \<and> fold_err (decode_channel pf) cs1 (fs0, []) = Inr (fs, ts)
               \<longrightarrow> decode_measurement pf meta ident m = Inl IndexError))
       \<and> (data_req_success r \<and> json r = Inr records \<and> m \<in> set records
          \<longrightarrow> (\<exists>e. dl_station_measurements pf self ident r = Inl e))"
proof -
  have 1: "\<exists>e. decode_measurement pf meta ident m = Inl e" for meta
    using assms by (rule decode_measurement_empty_flags)
  have 2: "decode_channel pf c (fs, ts) = Inl IndexError
        \<and> (strptime pf (TBTimestamp m) = Inr t
             \<and> fold_err (add_location pf m) location_keys [] = Inr fs0
             \<and> Channels m = cs1 @ c # cs2
             \<and> fold_err (decode_channel pf) cs1 (fs0, []) = Inr (fs, ts)
           \<longrightarrow> decode_measurement pf meta ident m = Inl IndexError)"
    if "py_float pf (PreScaled c) = Inr a \<and> py_float pf (Scaled c) = Inr b
            \<and> py_float pf (Slope c) = Inr s \<and> py_float pf (Offset c) = Inr d"
  proof -
    have i: "decode_channel pf c ft = Inl IndexError" for ft
      using that assms(2,3) by (simp add: decode_channel_def add_fields_ok flag_tag_empty)
    then show ?thesis
      by (simp add: decode_measurement_def fold_err_append)
  qed
  have 3: "\<exists>e. dl_station_measurements pf self ident r = Inl e"
    if "data_req_success r \<and> json r = Inr records \<and> m \<in> set records"
  proof -
    have "\<exists>e. append_measurement pf (station_meta self) ident m acc = Inl e" for acc
      using 1[of "station_meta self"] by (auto simp: append_measurement_def)
    with that have "\<exists>e. fold_err (append_measurement pf (station_meta self) ident) records [] = Inl e"
      by (intro fold_err_fails) auto
    with that show ?thesis by (auto simp: dl_station_measurements_def)
  qed
  from 1 2 3 show ?thesis by blast
qed

lemma example_before_empty_flags:
  "strptime text_platform (TBTimestamp (example_record\<lparr>Channels := [pm25, pm25\<lparr>Flags := []\<rparr>]\<rparr>))
     = Inr section8_time
   \<and> fold_err (add_location text_platform (example_record\<lparr>Channels := [pm25, pm25\<lparr>Flags := []\<rparr>]\<rparr>))
       location_keys [] = Inr []
   \<and> Channels (example_record\<lparr>Channels := [pm25, pm25\<lparr>Flags := []\<rparr>]\<rparr>)
       = [pm25] @ pm25\<lparr>Flags := []\<rparr> # []
   \<and> fold_err (decode_channel text_platform) [pm25] ([], [])
       = Inr (fields' example_point, [(''PM25 Flag'', PStr ''Valid'')])"
  by code_simp

theorem empty_flag_list_raises_witness:
  "pm25\<lparr>Flags := []\<rparr> \<in> set (Channels (example_record\<lparr>Channels := [pm25, pm25\<lparr>Flags := []\<rparr>]\<rparr>))
   \<and> PreScaled (pm25\<lparr>Flags := []\<rparr>) \<noteq> PNone \<and> Flags (pm25\<lparr>Flags := []\<rparr>) = []
   \<and> py_float text_platform (PreScaled (pm25\<lparr>Flags := []\<rparr>)) = Inr ''10.0''
   \<and> py_float text_platform (Scaled (pm25\<lparr>Flags := []\<rparr>)) = Inr ''9.5''
   \<and> py_float text_platform (Slope (pm25\<lparr>Flags := []\<rparr>)) = Inr ''1.0''
   \<and> py_float text_platform (Offset (pm25\<lparr>Flags := []\<rparr>)) = Inr ''0.1''
   \<and> data_req_success (response_of [example_record\<lparr>Channels := [pm25, pm25\<lparr>Flags := []\<rparr>]\<rparr>])
   \<and> (\<exists>e. decode_measurement text_platform example_meta ''station-1''
              (example_record\<lparr>Channels := [pm25, pm25\<lparr>Flags := []\<rparr>]\<rparr>) = Inl e)
   \<and> decode_channel text_platform (pm25\<lparr>Flags := []\<rparr>)
         (fields' example_point, [(''PM25 Flag'', PStr ''Valid'')]) = Inl IndexError
   \<and> decode_measurement text_platform example_meta ''station-1''
         (example_record\<lparr>Channels := [pm25, pm25\<lparr>Flags := []\<rparr>]\<rparr>) = Inl IndexError
   \<and> (\<exists>e. dl_station_measurements text_platform example_api ''station-1''
              (response_of [example_record\<lparr>Channels := [pm25, pm25\<lparr>Flags := []\<rparr>]\<rparr>]) = Inl e)"
proof -
  let ?c = "pm25\<lparr>Flags := []\<rparr>"
  let ?m = "example_record\<lparr>Channels := [pm25, ?c]\<rparr>"
  have h: "?c \<in> set (Channels ?m)" "PreScaled ?c \<noteq> PNone" "Flags ?c = []"
    by (simp_all add: pm25_def section8_channel_def)
  have f: "py_float text_platform (PreScaled ?c) = Inr ''10.0''
      \<and> py_float text_platform (Scaled ?c) = Inr ''9.5''
      \<and> py_float text_platform (Slope ?c) = Inr ''1.0''
      \<and> py_float text_platform (Offset ?c) = Inr ''0.1''"
    by (simp add: pm25_def section8_channel_def)
  have r: "data_req_success (response_of [?m]) \<and> json (response_of [?m]) = Inr [?m] \<and> ?m \<in> set [?m]"
    by (simp add: response_of_def data_req_success_def no_data_marker_def)
  note t = empty_flag_list_raises[OF h, where pf = text_platform and meta = example_meta
      and ident = "''station-1''" and a = "''10.0''" and b = "''9.5''" and s = "''1.0''"
      and d = "''0.1''" and fs = "fields' example_point" and ts = "[(''PM25 Flag'', PStr ''Valid'')]"
      and t = section8_time and ?fs0.0 = "[]" and ?cs1.0 = "[pm25]" and ?cs2.0 = "[]"
      and r = "response_of [?m]" and records = "[?m]" and self = example_api]
  note t2 = t[THEN conjunct2, THEN conjunct1, THEN mp, OF f]
  have 1: "\<exists>e. decode_measurement text_platform example_meta ''station-1'' ?m = Inl e"
    by (rule t[THEN conjunct1])
  have 2: "decode_channel text_platform ?c (fields' example_point, [(''PM25 Flag'', PStr ''Valid'')])
           = Inl IndexError"
    by (rule t2[THEN conjunct1])
  have 3: "decode_measurement text_platform example_meta ''station-1'' ?m = Inl IndexError"
    by (rule t2[THEN conjunct2, THEN mp, OF example_before_empty_flags])
  have 4: "\<exists>e. dl_station_measurements text_platform example_api ''station-1'' (response_of [?m]) = Inl e"
    by (rule t[THEN conjunct2, THEN conjunct2, THEN mp, OF r])
  from h f r 1 2 3 4 show ?thesis by blast
qed

section \<open>Stations without data\<close>

lemma bytes_in_sublist: "bytes_in a b = sublist a b"
  by (induction b) (auto simp: sublist_Cons_right)

lemma bytes_in_iff: "bytes_in a b \<longleftrightarrow> (\<exists>ps ss. b = ps @ a @ ss)"
  by (simp add: bytes_in_sublist sublist_def)

lemma dl_skip: "\<not> data_req_success r \<Longrightarrow> dl_station_measurements pf self ident r = Inr self"
  by (simp add: dl_station_measurements_def)

lemma set_keys_update: "set (py_keys (AList.update k v al)) = insert k (set (py_keys al))"
  by (simp add: py_keys_def AList.dom_update)

lemma dl_keys:
  assumes "dl_station_measurements pf self ident r = Inr self'"
  shows "set (stations_with_data self')
         \<subseteq> set (stations_with_data self) \<union> (if data_req_success r then {ident} else {})"
  using assms
  by (auto simp: dl_station_measurements_def stations_with_data_def set_keys_update
      split: if_splits sum.splits)

lemma download_day_keys:
  "download_day pf api stations net = Inr api' \<Longrightarrow>
   set (stations_with_data api')
   \<subseteq> set (stations_with_data api) \<union> {s \<in> set stations. data_req_success (net s)}"
proof (induction stations arbitrary: api)
  case Nil
  then show ?case by (simp add: download_day_def)
next
  case (Cons s stations)
  from Cons.prems obtain api1 where
    1: "dl_station_measurements pf api s (net s) = Inr api1"
    and 2: "download_day pf api1 stations net = Inr api'"
    by (auto simp: download_day_def split: sum.splits)
  from dl_keys[OF 1] Cons.IH[OF 2] show ?case by (auto split: if_splits)
qed

text \<open>
  C3. When the answer for a station has a status other than 200, or its body is the
  marker, \<^verbatim>\<open>dl_station_measurements\<close> returns without an error and leaves
  \<^verbatim>\<open>measurement_data\<close> as it was; the loop over the stations goes on with the next
  one; and after the loop of a day, which starts from cleared measurements, the station
  is not among the stations with data, over which every output loop runs.
\<close>

theorem no_data_is_skipped:
  assumes "status_code (net s) \<noteq> 200 \<or> content (net s) = no_data_marker"
  shows "dl_station_measurements pf self s (net s) = Inr self
       \<and> download_day pf self (s # rest) net = download_day pf self rest net
       \<and> (download_day pf (clear_measurements self) stations net = Inr api'
            \<longrightarrow> s \<notin> set (stations_with_data api'))"
proof -
  have nd: "\<not> data_req_success (net s)"
    using assms by (auto simp: data_req_success_def bytes_in_sublist)
  have 1: "dl_station_measurements pf self s (net s) = Inr self" for self :: "'a AcoemRequest"
    using nd by (rule dl_skip)
  have 2: "download_day pf self (s # rest) net = download_day pf self rest net"
    by (simp add: download_day_def 1)
  have 3: "s \<notin> set (stations_with_data api')"
    if "download_day pf (clear_measurements self) stations net = Inr api'"
    using download_day_keys[OF that] nd
    by (auto simp: stations_with_data_def clear_measurements_def py_keys_def)
  from 1 2 3 show ?thesis by blast
qed

lemma example_download:
  "download_day text_platform (clear_measurements example_api) [''station-1'', ''station-2''] example_net
   = Inr example_day"
  by code_simp

theorem no_data_is_skipped_witness:
  "content (example_net ''station-2'') = no_data_marker
   \<and> download_day text_platform (clear_measurements example_api) [''station-1'', ''station-2''] example_net
       = Inr example_day
   \<and> dl_station_measurements text_platform example_day ''station-2'' (example_net ''station-2'')
       = Inr example_day
   \<and> download_day text_platform example_day [''station-2''] example_net
       = download_day text_platform example_day [] example_net
   \<and> ''station-2'' \<notin> set (stations_with_data example_day)"
proof -
  have c: "content (example_net ''station-2'') = no_data_marker"
    by (simp add: example_net_def no_data_response_def)
  then have h: "status_code (example_net ''station-2'') \<noteq> 200
           \<or> content (example_net ''station-2'') = no_data_marker"
    by simp
  from no_data_is_skipped[where net = example_net and s = "''station-2''" and pf = text_platform
      and self = example_day and rest = "[]", OF h]
    no_data_is_skipped[where net = example_net and s = "''station-2''" and pf = text_platform
      and self = example_api and stations = "[''station-1'', ''station-2'']" and api' = example_day,
      OF h]
    c example_download
  show ?thesis by blast
qed

text \<open>
  C10. For a response with status 200 the request counts as successful exactly when the
  body is not a contiguous part of the marker. So every part of the marker, the empty
  body included, makes the method return with nothing changed, and a body that holds the
  marker and more counts as data: with an empty payload the station gets an entry.
\<close>

theorem no_data_test_is_containment:
  assumes "status_code r = 200"
  shows "(data_req_success r \<longleftrightarrow> \<not> (\<exists>ps ss. no_data_marker = ps @ content r @ ss))
       \<and> ((\<exists>ps ss. no_data_marker = ps @ content r @ ss)
            \<longrightarrow> dl_station_measurements pf self ident r = Inr self)
       \<and> (content r = [] \<longrightarrow> dl_station_measurements pf self ident r = Inr self)
       \<and> (content r = before @ no_data_marker @ after \<and> before @ after \<noteq> []
            \<longrightarrow> data_req_success r
              \<and> (json r = Inr [] \<longrightarrow> dl_station_measurements pf self ident r
                    = Inr (self\<lparr>measurement_data := AList.update ident [] (measurement_data self)\<rparr>)))"
proof -
  have 1: "data_req_success r \<longleftrightarrow> \<not> (\<exists>ps ss. no_data_marker = ps @ content r @ ss)"
    using assms by (simp add: data_req_success_def bytes_in_iff)
  have 2: "dl_station_measurements pf self ident r = Inr self"
    if "\<exists>ps ss. no_data_marker = ps @ content r @ ss"
    using that 1 by (simp add: dl_skip)
  have 3: "dl_station_measurements pf self ident r = Inr self" if "content r = []"
    using that by (simp add: dl_skip data_req_success_def bytes_in_sublist)
  have 4: "data_req_success r
        \<and> (json r = Inr [] \<longrightarrow> dl_station_measurements pf self ident r
              = Inr (self\<lparr>measurement_data := AList.update ident [] (measurement_data self)\<rparr>))"
    if "content r = before @ no_data_marker @ after \<and> before @ after \<noteq> []"
  proof -
    have "\<not> (\<exists>ps ss. no_data_marker = ps @ content r @ ss)"
    proof
      assume "\<exists>ps ss. no_data_marker = ps @ content r @ ss"
      then obtain ps ss where "no_data_marker = ps @ content r @ ss" by blast
      then have "length no_data_marker = length ps + length (content r) + length ss"
        by (metis length_append add.assoc)
      moreover have "length (content r) = length before + length no_data_marker + length after"
        using that by simp
      moreover have "length before + length after > 0"
        using that by (cases before) auto
      ultimately show False by arith
    qed
    with 1 have "data_req_success r" by simp
    then show ?thesis by (simp add: dl_station_measurements_def)
  qed
  from 1 2 3 4 show ?thesis by blast
qed

theorem no_data_test_is_containment_witness:
  "status_code (no_data_response\<lparr>content := ''DATA''\<rparr>) = 200
   \<and> no_data_marker = ''NO '' @ content (no_data_response\<lparr>content := ''DATA''\<rparr>)
                        @ '' WAS FOUND FOR YOUR GIVEN PARAMETERS''
   \<and> dl_station_measurements text_platform example_api ''station-1''
        (no_data_response\<lparr>content := ''DATA''\<rparr>) = Inr example_api
   \<and> status_code (no_data_response\<lparr>content := []\<rparr>) = 200
   \<and> content (no_data_response\<lparr>content := []\<rparr>) = []
   \<and> dl_station_measurements text_platform example_api ''station-1''
        (no_data_response\<lparr>content := []\<rparr>) = Inr example_api
   \<and> status_code (response_of []\<lparr>content := ''<'' @ no_data_marker @ ''>''\<rparr>) = 200
   \<and> content (response_of []\<lparr>content := ''<'' @ no_data_marker @ ''>''\<rparr>) = ''<'' @ no_data_marker @ ''>''
   \<and> ''<'' @ ''>'' \<noteq> []
   \<and> json (response_of []\<lparr>content := ''<'' @ no_data_marker @ ''>''\<rparr>) = Inr []
   \<and> data_req_success (response_of []\<lparr>content := ''<'' @ no_data_marker @ ''>''\<rparr>)
   \<and> dl_station_measurements text_platform example_api ''station-1''
        (response_of []\<lparr>content := ''<'' @ no_data_marker @ ''>''\<rparr>)
       = Inr (example_api\<lparr>measurement_data := AList.update ''station-1'' [] (measurement_data example_api)\<rparr>)"
proof -
  let ?r1 = "no_data_response\<lparr>content := ''DATA''\<rparr>"
  let ?r2 = "no_data_response\<lparr>content := []\<rparr>"
  let ?r3 = "response_of []\<lparr>content := ''<'' @ no_data_marker @ ''>''\<rparr>"
  have s: "status_code ?r1 = 200" "status_code ?r2 = 200" "status_code ?r3 = 200"
    by (simp_all add: no_data_response_def response_of_def)
  have c1: "no_data_marker = ''NO '' @ content ?r1 @ '' WAS FOUND FOR YOUR GIVEN PARAMETERS''"
    by (simp add: no_data_marker_def)
  have c2: "content ?r2 = []" by simp
  have c3: "content ?r3 = ''<'' @ no_data_marker @ ''>'' \<and> ''<'' @ ''>'' \<noteq> []" by simp
  have j3: "json ?r3 = Inr []" by (simp add: response_of_def)
  from no_data_test_is_containment[OF s(1), where pf = text_platform and self = example_api
      and ident = "''station-1''"]
    no_data_test_is_containment[OF s(2), where pf = text_platform and self = example_api
      and ident = "''station-1''"]
    no_data_test_is_containment[OF s(3), where pf = text_platform and self = example_api
      and ident = "''station-1''" and before = "''<''" and after = "''>''"]
    s c1 c2 c3 j3
  show ?thesis by blast
qed

section \<open>Stored containers have fields\<close>

lemma set_update_subset: "set (AList.update k v al) \<subseteq> insert (k, v) (set al)"
  by (induction al) auto

lemma append_measurement_cases:
  assumes "append_measurement pf meta ident m acc = Inr acc'"
  shows "acc' = acc
       \<or> (\<exists>p. decode_measurement pf meta ident m = Inr p \<and> fields' p \<noteq> [] \<and> acc' = acc @ [p])"
  using assms by (auto simp: append_measurement_def py_keys_def split: sum.splits if_splits)

lemma fold_append_measurement_nonempty:
  assumes "fold_err (append_measurement pf meta ident) records acc = Inr acc'"
    and "\<forall>p\<in>set acc. fields' p \<noteq> []"
  shows "\<forall>p\<in>set acc'. fields' p \<noteq> []"
proof (rule fold_err_invariant[OF assms(1), where P = "\<lambda>acc. \<forall>p\<in>set acc. fields' p \<noteq> []"])
  show "\<forall>p\<in>set acc. fields' p \<noteq> []" by (rule assms(2))
next
  fix m t t'
  assume "\<forall>p\<in>set t. fields' p \<noteq> []" and "append_measurement pf meta ident m t = Inr t'"
  with append_measurement_cases[of pf meta ident m t t'] show "\<forall>p\<in>set t'. fields' p \<noteq> []"
    by auto
qed

lemma dl_preserves_nonempty:
  assumes "every_point_has_a_field self" "dl_station_measurements pf self ident r = Inr self'"
  shows "every_point_has_a_field self'"
proof (cases "data_req_success r")
  case False
  with assms show ?thesis by (simp add: dl_station_measurements_def)
next
  case True
  with assms(2) obtain records containers where
    c: "fold_err (append_measurement pf (station_meta self) ident) records [] = Inr containers"
    and s: "self' = self\<lparr>measurement_data := AList.update ident containers (measurement_data self)\<rparr>"
    by (auto simp: dl_station_measurements_def split: sum.splits)
  from fold_append_measurement_nonempty[OF c] have "\<forall>p\<in>set containers. fields' p \<noteq> []" by simp
  with assms(1) set_update_subset[of ident containers "measurement_data self"] show ?thesis
    unfolding every_point_has_a_field_def s by fastforce
qed

lemma download_day_preserves_nonempty:
  "every_point_has_a_field api \<Longrightarrow> download_day pf api stations net = Inr api' \<Longrightarrow>
   every_point_has_a_field api'"
proof (induction stations arbitrary: api)
  case Nil
  then show ?case by (simp add: download_day_def)
next
  case (Cons s stations)
  from Cons.prems(2) obtain api1 where
    1: "dl_station_measurements pf api s (net s) = Inr api1"
    and 2: "download_day pf api1 stations net = Inr api'"
    by (auto simp: download_day_def split: sum.splits)
  from Cons.IH[OF dl_preserves_nonempty[OF Cons.prems(1) 1] 2] show ?case .
qed

text \<open>
  C6. A record that decodes to a container without fields leaves the list of a station
  as it is; whatever is appended is a decoded container with at least one field; a
  download keeps the property that every stored container has a field; and after the
  downloads of a day, which start from cleared measurements, every stored container has
  a field.
\<close>

theorem stored_points_have_fields:
  "(decode_measurement pf meta ident m = Inr p \<and> fields' p = []
      \<longrightarrow> append_measurement pf meta ident m acc = Inr acc)
   \<and> (append_measurement pf meta ident m' acc = Inr acc'
      \<longrightarrow> acc' = acc
          \<or> (\<exists>q. decode_measurement pf meta ident m' = Inr q \<and> fields' q \<noteq> [] \<and> acc' = acc @ [q]))
   \<and> (every_point_has_a_field self \<and> dl_station_measurements pf self ident r = Inr self'
      \<longrightarrow> every_point_has_a_field self')
   \<and> (download_day pf (clear_measurements self) stations net = Inr api'
      \<longrightarrow> every_point_has_a_field api')"
proof -
  have 1: "append_measurement pf meta ident m acc = Inr acc"
    if "decode_measurement pf meta ident m = Inr p \<and> fields' p = []"
    using that by (simp add: append_measurement_def py_keys_def)
  have 4: "every_point_has_a_field api'"
    if "download_day pf (clear_measurements self) stations net = Inr api'"
    using download_day_preserves_nonempty[OF _ that]
    by (simp add: every_point_has_a_field_def clear_measurements_def)
  from 1 append_measurement_cases dl_preserves_nonempty 4 show ?thesis by blast
qed

lemma example_without_channels:
  "decode_measurement text_platform example_meta ''station-1'' (example_record\<lparr>Channels := []\<rparr>)
   = Inr (example_point\<lparr>fields' := [], tags := [(''SerialNumber'', PStr ''ABC123'')]\<rparr>)"
  by code_simp

lemma example_append:
  "append_measurement text_platform example_meta ''station-1'' example_record [] = Inr [example_point]"
  by code_simp

lemma example_redownload:
  "dl_station_measurements text_platform example_day ''station-1'' (example_net ''station-1'')
   = Inr example_day"
  by code_simp

theorem stored_points_have_fields_witness:
  "decode_measurement text_platform example_meta ''station-1'' (example_record\<lparr>Channels := []\<rparr>)
     = Inr (example_point\<lparr>fields' := [], tags := [(''SerialNumber'', PStr ''ABC123'')]\<rparr>)
   \<and> fields' (example_point\<lparr>fields' := [], tags := [(''SerialNumber'', PStr ''ABC123'')]\<rparr>) = []
   \<and> append_measurement text_platform example_meta ''station-1'' (example_record\<lparr>Channels := []\<rparr>)
        [example_point] = Inr [example_point]
   \<and> append_measurement text_platform example_meta ''station-1'' example_record [] = Inr [example_point]
   \<and> (\<exists>q. decode_measurement text_platform example_meta ''station-1'' example_record = Inr q
            \<and> fields' q \<noteq> [] \<and> [example_point] = [] @ [q])
   \<and> every_point_has_a_field example_day
   \<and> dl_station_measurements text_platform example_day ''station-1'' (example_net ''station-1'')
       = Inr example_day
   \<and> download_day text_platform (clear_measurements example_api) [''station-1'', ''station-2''] example_net
       = Inr example_day"
proof -
  have e: "fields' (example_point\<lparr>fields' := [], tags := [(''SerialNumber'', PStr ''ABC123'')]\<rparr>) = []"
    by simp
  from stored_points_have_fields[where pf = text_platform and meta = example_meta
      and ident = "''station-1''" and m = "example_record\<lparr>Channels := []\<rparr>"
      and p = "example_point\<lparr>fields' := [], tags := [(''SerialNumber'', PStr ''ABC123'')]\<rparr>"
      and acc = "[example_point]" and self = example_api
      and stations = "[''station-1'', ''station-2'']" and net = example_net and api' = example_day]
    stored_points_have_fields[where pf = text_platform and meta = example_meta
      and ident = "''station-1''" and m' = example_record and acc = "[]" and acc' = "[example_point]"
      and self = example_day and r = "example_net ''station-1''" and self' = example_day
      and stations = "[''station-1'', ''station-2'']" and net = example_net and api' = example_day]
    example_without_channels e example_append example_redownload example_download
  show ?thesis by blast
qed

section \<open>The key classification\<close>

lemma set_first_seen: "set (first_seen xs) = set xs"
  by (induction xs) auto

lemma distinct_first_seen: "distinct (first_seen xs)"
  by (induction xs) (auto simp: set_first_seen)

lemma fold_add_key: "fold add_key ks acc = acc @ filter (\<lambda>k. k \<notin> set acc) (first_seen ks)"
proof (induction ks arbitrary: acc)
  case Nil
  then show ?case by simp
next
  case (Cons k ks)
  show ?case
  proof (cases "k \<in> set acc")
    case True
    then have "filter (\<lambda>k. k \<notin> set acc) (filter (\<lambda>y. y \<noteq> k) (first_seen ks))
             = filter (\<lambda>k. k \<notin> set acc) (first_seen ks)"
      by (auto intro: filter_cong)
    with True Cons.IH[of acc] show ?thesis by (simp add: add_key_def)
  next
    case False
    have "filter (\<lambda>x. x \<notin> set (acc @ [k])) (first_seen ks)
        = filter (\<lambda>k. k \<notin> set acc) (filter (\<lambda>y. y \<noteq> k) (first_seen ks))"
      by (auto intro: filter_cong)
    with False Cons.IH[of "acc @ [k]"] show ?thesis by (simp add: add_key_def)
  qed
qed

lemma first_seen_snoc:
  "first_seen (xs @ [x]) = (if x \<in> set xs then first_seen xs else first_seen xs @ [x])"
  by (induction xs) (auto simp: set_first_seen)

lemma first_seen_sorted:
  "sorted_wrt (\<lambda>a b. length (takeWhile (\<lambda>y. y \<noteq> a) xs) < length (takeWhile (\<lambda>y. y \<noteq> b) xs))
     (first_seen xs)"
proof (induction xs)
  case Nil
  then show ?case by simp
next
  case (Cons x xs)
  have "sorted_wrt (\<lambda>a b. length (takeWhile (\<lambda>y. y \<noteq> a) xs) < length (takeWhile (\<lambda>y. y \<noteq> b) xs))
          (filter (\<lambda>y. y \<noteq> x) (first_seen xs))"
    using Cons.IH by (rule sorted_wrt_filter)
  then have "sorted_wrt (\<lambda>a b. length (takeWhile (\<lambda>y. y \<noteq> a) (x # xs))
                              < length (takeWhile (\<lambda>y. y \<noteq> b) (x # xs)))
          (filter (\<lambda>y. y \<noteq> x) (first_seen xs))"
    by (rule sorted_wrt_mono_rel[rotated]) auto
  then show ?case by auto
qed

lemma fold_classify:
  "fold classify ps keys =
     \<lparr>key_fields = fold add_key (concat (map (\<lambda>p. py_keys (fields' p)) ps)) (key_fields keys),
      key_tags = fold add_key (concat (map (\<lambda>p. py_keys (tags p)) ps)) (key_tags keys)\<rparr>"
  by (induction ps arbitrary: keys) (auto simp: classify_def Let_def)

text \<open>
  C7. For the containers stored for a station, in their order, let \<open>fs\<close> be their field
  keys one container after the other and \<open>ts\<close> their tag keys.
  \<^verbatim>\<open>get_key_classifications\<close> returns the two lists \<open>first_seen fs\<close> and
  \<open>first_seen ts\<close>: each holds every key that occurs, once, and a key stands before
  another exactly as its first occurrence does. The result is a function of the
  container sequence alone, so two runs agree.
\<close>

theorem schema_is_first_seen_order:
  assumes "map_of (measurement_data self) ident = Some points"
    and "fs = concat (map (\<lambda>p. py_keys (fields' p)) points)"
    and "ts = concat (map (\<lambda>p. py_keys (tags p)) points)"
  shows "get_key_classifications self ident = Inr \<lparr>key_fields = first_seen fs, key_tags = first_seen ts\<rparr>
       \<and> distinct (first_seen fs) \<and> set (first_seen fs) = set fs
       \<and> distinct (first_seen ts) \<and> set (first_seen ts) = set ts
       \<and> sorted_wrt (\<lambda>a b. length (takeWhile (\<lambda>y. y \<noteq> a) fs) < length (takeWhile (\<lambda>y. y \<noteq> b) fs))
            (first_seen fs)
       \<and> sorted_wrt (\<lambda>a b. length (takeWhile (\<lambda>y. y \<noteq> a) ts) < length (takeWhile (\<lambda>y. y \<noteq> b) ts))
            (first_seen ts)
       \<and> (\<forall>xs x. first_seen (xs @ [x]) = (if x \<in> set xs then first_seen xs else first_seen xs @ [x :: string]))"
  using assms
  by (simp add: get_key_classifications_def py_getitem_def fold_classify fold_add_key
      distinct_first_seen set_first_seen first_seen_sorted first_seen_snoc)

lemma example_points:
  "map_of (measurement_data twin_day)
     ''station-1''
   = Some [example_point, battery_point]"
  by (simp add: twin_day_def)

lemma example_field_keys:
  "[''PM25 PreScaled [ug/m3]'', ''PM25 Scaled [ug/m3]'', ''PM25 Slope [ug/m3]'', ''PM25 Offset [ug/m3]'',
    ''PM25 PreScaled [ug/m3]'', ''PM25 Scaled [ug/m3]'', ''PM25 Slope [ug/m3]'', ''PM25 Offset [ug/m3]'']
   = concat (map (\<lambda>p. py_keys (fields' p))
       [example_point, battery_point])"
  by (simp add: example_point_def battery_point_def section8_point_def py_keys_def)

lemma example_tag_keys:
  "[''PM25 Flag'', ''SerialNumber'', ''Battery'']
   = concat (map (\<lambda>p. py_keys (tags p))
       [example_point, battery_point])"
  by (simp add: example_point_def battery_point_def section8_point_def py_keys_def)

theorem schema_is_first_seen_order_witness:
  "map_of (measurement_data twin_day)
     ''station-1''
   = Some [example_point, battery_point]
   \<and> get_key_classifications twin_day
     ''station-1''
     = Inr \<lparr>key_fields = [''PM25 PreScaled [ug/m3]'', ''PM25 Scaled [ug/m3]'',
                           ''PM25 Slope [ug/m3]'', ''PM25 Offset [ug/m3]''],
            key_tags = [''PM25 Flag'', ''SerialNumber'', ''Battery'']\<rparr>"
proof -
  from schema_is_first_seen_order[OF example_points example_field_keys example_tag_keys]
  have "get_key_classifications twin_day
     ''station-1''
     = Inr \<lparr>key_fields = first_seen [''PM25 PreScaled [ug/m3]'', ''PM25 Scaled [ug/m3]'',
              ''PM25 Slope [ug/m3]'', ''PM25 Offset [ug/m3]'', ''PM25 PreScaled [ug/m3]'',
              ''PM25 Scaled [ug/m3]'', ''PM25 Slope [ug/m3]'', ''PM25 Offset [ug/m3]''],
            key_tags = first_seen [''PM25 Flag'', ''SerialNumber'', ''Battery'']\<rparr>"
    by blast
  with example_points show ?thesis by simp
qed

section \<open>The json formatter\<close>

lemma update_fresh: "k \<notin> fst ` set al \<Longrightarrow> AList.update k v al = al @ [(k, v)]"
  by (induction al) auto

lemma keys_fold_update:
  "map fst (fold (\<lambda>m d. AList.update (k m) (v m) d) ms d0) = fold add_key (map k ms) (map fst d0)"
  by (induction ms arbitrary: d0) (auto simp: AList.update_keys add_key_def)

lemma map_of_fold_update:
  "map_of (fold (\<lambda>m d. AList.update (k m) (v m) d) ms d0)
     = map_of d0 ++ map_of (map (\<lambda>m. (k m, v m)) (rev ms))"
  by (induction ms arbitrary: d0)
    (auto simp: AList.update_conv' map_add_def fun_eq_iff split: option.splits)

lemma fold_update_distinct:
  "distinct (map k ms) \<Longrightarrow> set (map k ms) \<inter> fst ` set d0 = {} \<Longrightarrow>
   fold (\<lambda>m d. AList.update (k m) (v m) d) ms d0 = d0 @ map (\<lambda>m. (k m, v m)) ms"
proof (induction ms arbitrary: d0)
  case Nil
  then show ?case by simp
next
  case (Cons m ms)
  from Cons.prems have fresh: "k m \<notin> fst ` set d0" by auto
  from Cons.prems have "distinct (map k ms)" "set (map k ms) \<inter> fst ` set (d0 @ [(k m, v m)]) = {}"
    by auto
  from Cons.IH[OF this] fresh show ?case by (simp add: update_fresh)
qed

lemma map_of_first:
  "\<forall>q\<in>set xs. k q \<noteq> k p \<Longrightarrow> map_of (map (\<lambda>m. (k m, v m)) (xs @ p # ys)) (k p) = Some (v p)"
  by (induction xs) auto

lemma format_as_json_eq:
  "format_as_json self ident =
     (case map_of (measurement_data self) ident of
        None \<Rightarrow> Inl KeyError
      | Some stored \<Rightarrow>
          Inr (fold (\<lambda>m d. AList.update (strftime_iso (time m)) \<lparr>Data = fields' m, Status = tags m\<rparr> d)
                 (rev stored) []))"
  by (simp add: format_as_json_def py_getitem_def json_entry_def split: option.splits)

section \<open>Timestamps\<close>

lemma digit_mem: "digit_chars ! (n mod 10) \<in> set digit_chars"
  by (rule nth_mem) (simp add: digit_chars_def)

lemma digit_inj: "a < 10 \<Longrightarrow> b < 10 \<Longrightarrow> digit_chars ! a = digit_chars ! b \<Longrightarrow> a = b"
  by (simp add: digit_chars_def nth_eq_iff_index_eq)

lemma pad2_digits:
  assumes "pad2 n = pad2 m"
  shows "n div 10 mod 10 = m div 10 mod 10 \<and> n mod 10 = m mod 10"
proof -
  from assms have "digit_chars ! (n div 10 mod 10) = digit_chars ! (m div 10 mod 10)"
    and "digit_chars ! (n mod 10) = digit_chars ! (m mod 10)"
    by (simp_all add: pad2_def)
  then show ?thesis by (auto intro: digit_inj)
qed

lemma pad2_inj:
  assumes "n < 100" "m < 100" "pad2 n = pad2 m"
  shows "n = m"
proof -
  from pad2_digits[OF assms(3)] have 1: "n div 10 mod 10 = m div 10 mod 10" and 2: "n mod 10 = m mod 10"
    by simp_all
  from assms(1,2) have "n div 10 < 10" "m div 10 < 10" by simp_all
  with 1 have "n div 10 = m div 10" by simp
  with 2 show ?thesis by (metis div_mult_mod_eq)
qed

lemma pad4_inj:
  assumes "n < 10000" "m < 10000" "pad4 n = pad4 m"
  shows "n = m"
proof -
  from assms(3) have "digit_chars ! (n div 1000 mod 10) = digit_chars ! (m div 1000 mod 10)"
    and "digit_chars ! (n div 100 mod 10) = digit_chars ! (m div 100 mod 10)"
    and "digit_chars ! (n div 10 mod 10) = digit_chars ! (m div 10 mod 10)"
    and "digit_chars ! (n mod 10) = digit_chars ! (m mod 10)"
    by (simp_all add: pad4_def)
  then have d: "n div 1000 mod 10 = m div 1000 mod 10" "n div 100 mod 10 = m div 100 mod 10"
    "n div 10 mod 10 = m div 10 mod 10" "n mod 10 = m mod 10"
    by (auto intro: digit_inj)
  from assms(1,2) have "n div 1000 < 10" "m div 1000 < 10" by simp_all
  with d(1) have 3: "n div 1000 = m div 1000" by simp
  have "n div 100 = 10 * (n div 100 div 10) + n div 100 mod 10"
    and "m div 100 = 10 * (m div 100 div 10) + m div 100 mod 10" by simp_all
  with 3 d(2) have 2: "n div 100 = m div 100" by (simp add: div_mult2_eq[symmetric])
  have "n div 10 = 10 * (n div 10 div 10) + n div 10 mod 10"
    and "m div 10 = 10 * (m div 10 div 10) + m div 10 mod 10" by simp_all
  with 2 d(3) have 1: "n div 10 = m div 10" by (simp add: div_mult2_eq[symmetric])
  with d(4) show ?thesis by (metis div_mult_mod_eq)
qed


lemma length_pad2: "length (pad2 n) = 2" by (simp add: pad2_def)
lemma length_pad4: "length (pad4 n) = 4" by (simp add: pad4_def)

lemma show_nat_digit: "n < 10 \<Longrightarrow> show_nat n = [digit_chars ! n]"
  by (subst show_nat.simps) simp

lemma show_nat_step: "10 \<le> n \<Longrightarrow> show_nat n = show_nat (n div 10) @ [digit_chars ! (n mod 10)]"
  by (subst show_nat.simps) simp

lemma show_nat_pad4:
  assumes "1000 \<le> y" "y \<le> 9999"
  shows "show_nat y = pad4 y"
proof -
  have a: "10 \<le> y" "10 \<le> y div 10" "10 \<le> y div 10 div 10" "y div 10 div 10 div 10 < 10"
    using assms by simp_all
  have b: "y div 10 div 10 = y div 100" "y div 10 div 10 div 10 = y div 1000"
    "y div 100 div 10 = y div 1000"
    by (simp_all add: div_mult2_eq[symmetric])
  have c: "y div 1000 mod 10 = y div 1000"
    using a(4) b(2) by simp
  have "show_nat y = [digit_chars ! (y div 10 div 10 div 10), digit_chars ! (y div 10 div 10 mod 10),
                      digit_chars ! (y div 10 mod 10), digit_chars ! (y mod 10)]"
    by (simp add: show_nat_step[OF a(1)] show_nat_step[OF a(2)] show_nat_step[OF a(3)]
        show_nat_digit[OF a(4)])
  then show ?thesis by (simp add: pad4_def b c)
qed

lemma whole_minutes:
  assumes "off mod 60000000 = (0::int)"
  shows "\<bar>off\<bar> = 60000000 * (\<bar>off\<bar> div 60000000)"
proof -
  from assms have "60000000 dvd off" by (simp add: mod_eq_0_iff_dvd)
  then have "60000000 dvd \<bar>off\<bar>" by simp
  then show ?thesis by simp
qed

lemma iso_offset_minutes:
  "iso_offset off =
     (if off < 0 then ''-'' else ''+'') @ pad2 (nat (\<bar>off\<bar> div 60000000 div 60))
       @ pad2 (nat (\<bar>off\<bar> div 60000000 mod 60))"
proof -
  have "\<bar>off\<bar> div 3600000000 = \<bar>off\<bar> div (60000000 * 60)" by simp
  also have "\<dots> = \<bar>off\<bar> div 60000000 div 60" by (rule zdiv_zmult2_eq) simp
  finally show ?thesis by (simp only: iso_offset_def)
qed

lemma strftime_z_minutes:
  assumes "off mod 60000000 = 0"
  shows "strftime_z off =
     (if off < 0 then ''-'' else ''+'') @ pad2 (nat (\<bar>off\<bar> div 60000000 div 60))
       @ pad2 (nat (\<bar>off\<bar> div 60000000 mod 60))"
proof -
  define k where "k = \<bar>off\<bar> div 60000000"
  have A: "\<bar>off\<bar> = 1000000 * (60 * k)"
    using whole_minutes[OF assms] by (simp add: k_def)
  have 1: "\<bar>off\<bar> mod 1000000 = 0" by (subst A) simp
  have 2: "\<bar>off\<bar> div 1000000 = 60 * k" by (subst A) simp
  have 3: "\<bar>off\<bar> div 1000000 mod 60 = 0" by (simp add: 2)
  have 4: "\<bar>off\<bar> div 1000000 div 60 = k" by (simp add: 2)
  show ?thesis
    unfolding strftime_z_def 1 3 4 k_def[symmetric] by simp
qed

lemma strftime_z_iso: "off mod 60000000 = 0 \<Longrightarrow> strftime_z off = iso_offset off"
  by (simp only: strftime_z_minutes iso_offset_minutes)

lemma iso_offset_inj:
  assumes "\<bar>a\<bar> < 86400000000" "\<bar>b\<bar> < 86400000000" "a mod 60000000 = 0" "b mod 60000000 = 0"
    and "iso_offset a = iso_offset b"
  shows "a = b"
proof -
  define ka where "ka = \<bar>a\<bar> div 60000000"
  define kb where "kb = \<bar>b\<bar> div 60000000"
  have e: "(if a < 0 then ''-'' else ''+'') @ pad2 (nat (ka div 60)) @ pad2 (nat (ka mod 60))
         = (if b < 0 then ''-'' else ''+'') @ pad2 (nat (kb div 60)) @ pad2 (nat (kb mod 60))"
    using assms(5) unfolding iso_offset_minutes ka_def kb_def .
  then have s: "(a < 0) = (b < 0)"
    by (auto split: if_splits)
  from e have "pad2 (nat (ka div 60)) @ pad2 (nat (ka mod 60))
      = pad2 (nat (kb div 60)) @ pad2 (nat (kb mod 60))"
    by (auto split: if_splits)
  then have p: "pad2 (nat (ka div 60)) = pad2 (nat (kb div 60))"
    "pad2 (nat (ka mod 60)) = pad2 (nat (kb mod 60))"
    by (simp_all add: length_pad2)
  have n: "0 \<le> ka" "0 \<le> kb" by (simp_all add: ka_def kb_def)
  have "ka < 1440" "kb < 1440" using assms(1,2) by (simp_all add: ka_def kb_def)
  then have "ka div 60 < 100" "kb div 60 < 100" by simp_all
  then have "nat (ka div 60) < 100" "nat (kb div 60) < 100" by simp_all
  with p(1) have "nat (ka div 60) = nat (kb div 60)" by (rule pad2_inj[rotated 2])
  then have 1: "ka div 60 = kb div 60" using n by (simp add: pos_imp_zdiv_nonneg_iff)
  have "ka mod 60 < 100" "kb mod 60 < 100"
    by (rule less_trans[OF pos_mod_bound]; simp)+
  then have "nat (ka mod 60) < 100" "nat (kb mod 60) < 100" by simp_all
  with p(2) have "nat (ka mod 60) = nat (kb mod 60)" by (rule pad2_inj[rotated 2])
  then have 2: "ka mod 60 = kb mod 60" by simp
  from 1 2 have "ka = kb" by (metis div_mult_mod_eq)
  moreover have "\<bar>a\<bar> = 60000000 * ka" "\<bar>b\<bar> = 60000000 * kb"
    using whole_minutes[OF assms(3)] whole_minutes[OF assms(4)] by (simp_all add: ka_def kb_def)
  ultimately have "\<bar>a\<bar> = \<bar>b\<bar>" by simp
  with s show ?thesis by linarith
qed

lemma joined_parts:
  assumes "a @ s1 @ b @ s2 @ c @ s3 @ d @ s4 @ e @ s5 @ f @ z
         = a' @ s1 @ b' @ s2 @ c' @ s3 @ d' @ s4 @ e' @ s5 @ f' @ z'"
    and "length a = length a'" "length b = length b'" "length c = length c'"
    "length d = length d'" "length e = length e'" "length f = length f'"
  shows "a = a' \<and> b = b' \<and> c = c' \<and> d = d' \<and> e = e' \<and> f = f' \<and> z = z'"
  using assms by simp

lemma strftime_iso_timestamp:
  assumes "iso_datetime t"
  shows "strftime_iso t = iso_timestamp t"
proof -
  from assms have "1000 \<le> year t" "year t \<le> 9999" "utcoffset t mod 60000000 = 0"
    by (simp_all add: iso_datetime_def datetime_ok_def)
  then show ?thesis
    by (simp only: strftime_iso_def iso_timestamp_def show_nat_pad4 strftime_z_iso)
qed

lemma digit_mem_minutes: "digit_chars ! (nat (x mod 60) div 10) \<in> set digit_chars"
proof (rule nth_mem)
  have "x mod 60 < 60" by simp
  then have "nat (x mod 60) < 60" by simp
  then have "nat (x mod 60) div 10 < 10" by (simp add: less_mult_imp_div_less)
  then show "nat (x mod 60) div 10 < length digit_chars" by (simp add: digit_chars_def)
qed

lemma iso_timestamp_format: "iso_format (iso_timestamp t)"
  by (simp add: iso_format_def iso_timestamp_def iso_offset_def pad2_def pad4_def digit_mem
      digit_mem_minutes)

lemma iso_timestamp_inj:
  assumes "iso_datetime t" "iso_datetime u" "iso_timestamp t = iso_timestamp u"
  shows "t = u"
proof -
  have "pad4 (year t) = pad4 (year u) \<and> pad2 (month t) = pad2 (month u)
      \<and> pad2 (day t) = pad2 (day u) \<and> pad2 (hour t) = pad2 (hour u)
      \<and> pad2 (minute t) = pad2 (minute u) \<and> pad2 (second t) = pad2 (second u)
      \<and> iso_offset (utcoffset t) = iso_offset (utcoffset u)"
    by (rule joined_parts[OF assms(3)[unfolded iso_timestamp_def]])
      (simp_all only: length_pad2 length_pad4)
  then have p: "pad4 (year t) = pad4 (year u)" "pad2 (month t) = pad2 (month u)"
    "pad2 (day t) = pad2 (day u)" "pad2 (hour t) = pad2 (hour u)"
    "pad2 (minute t) = pad2 (minute u)" "pad2 (second t) = pad2 (second u)"
    "iso_offset (utcoffset t) = iso_offset (utcoffset u)"
    by blast+
  from assms(1,2) have b: "year t < 10000" "year u < 10000" "month t < 100" "month u < 100"
    "day t < 100" "day u < 100" "hour t < 100" "hour u < 100" "minute t < 100" "minute u < 100"
    "second t < 100" "second u < 100"
    by (simp_all add: iso_datetime_def datetime_ok_def)
  from assms(1,2) have z: "\<bar>utcoffset t\<bar> < 86400000000" "\<bar>utcoffset u\<bar> < 86400000000"
    "utcoffset t mod 60000000 = 0" "utcoffset u mod 60000000 = 0"
    by (simp_all add: iso_datetime_def datetime_ok_def)
  have "year t = year u" using b(1,2) p(1) by (rule pad4_inj)
  moreover have "month t = month u" using b(3,4) p(2) by (rule pad2_inj)
  moreover have "day t = day u" using b(5,6) p(3) by (rule pad2_inj)
  moreover have "hour t = hour u" using b(7,8) p(4) by (rule pad2_inj)
  moreover have "minute t = minute u" using b(9,10) p(5) by (rule pad2_inj)
  moreover have "second t = second u" using b(11,12) p(6) by (rule pad2_inj)
  moreover have "utcoffset t = utcoffset u" using z p(7) by (rule iso_offset_inj)
  ultimately show ?thesis by simp
qed

lemma odd_decode:
  "decode_measurement text_platform example_meta ''station-1'' seconds_record = Inr seconds_point"
  "decode_measurement text_platform example_meta ''station-1'' early_record = Inr early_point"
  by code_simp+

lemma odd_json:
  "format_as_json odd_day ''station-1''
   = Inr [(''999-06-01T00:00:00+0000'', \<lparr>Data = fields' early_point, Status = tags early_point\<rparr>),
          (''2021-06-01T00:00:00+000030'',
           \<lparr>Data = fields' seconds_point, Status = tags seconds_point\<rparr>)]"
  by code_simp

text \<open>
  C8, as stated, gives every key the form \<^verbatim>\<open>YYYY-MM-DDTHH:MM:SS+HHMM\<close>. The code
  prints what \<^verbatim>\<open>strftime("%Y-%m-%dT%H:%M:%S%z")\<close> prints, and that has another form
  for two kinds of timestamps that \<^verbatim>\<open>strptime\<close> accepts with the same format: a
  year below 1000 is printed without leading zeros, and an offset that is not a whole
  number of minutes is printed with its seconds. The example record with the timestamps
  \<^verbatim>\<open>0999-06-01T00:00:00+0000\<close> and \<^verbatim>\<open>2021-06-01T00:00:00+000030\<close> gives the keys
  \<^verbatim>\<open>999-06-01T00:00:00+0000\<close> and \<^verbatim>\<open>2021-06-01T00:00:00+000030\<close>, of 23 and 26
  characters.
\<close>

theorem json_by_timestamp_counterexample:
  "decode_measurement text_platform example_meta ''station-1'' seconds_record = Inr seconds_point
   \<and> decode_measurement text_platform example_meta ''station-1'' early_record = Inr early_point
   \<and> format_as_json odd_day ''station-1''
       = Inr [(''999-06-01T00:00:00+0000'', \<lparr>Data = fields' early_point, Status = tags early_point\<rparr>),
              (''2021-06-01T00:00:00+000030'',
               \<lparr>Data = fields' seconds_point, Status = tags seconds_point\<rparr>)]
   \<and> \<not> iso_format ''999-06-01T00:00:00+0000''
   \<and> \<not> iso_format ''2021-06-01T00:00:00+000030''"
proof -
  have "\<not> iso_format ''999-06-01T00:00:00+0000''" "\<not> iso_format ''2021-06-01T00:00:00+000030''"
    by (simp_all add: iso_format_def)
  with odd_decode odd_json show ?thesis by simp
qed

text \<open>
  C8, amended. For the containers \<open>stored\<close> for a station the json formatter returns a
  mapping \<open>js\<close> with these properties. Its keys are the timestamps of the containers as
  \<^verbatim>\<open>strftime("%Y-%m-%dT%H:%M:%S%z")\<close> prints them, in the reverse of the stored order,
  each once. For a container whose time has a year of four digits and an offset of whole
  minutes, that key is the timestamp in the form \<^verbatim>\<open>YYYY-MM-DDTHH:MM:SS+HHMM\<close>: the
  digits of year, month, day, hour, minute and second, the sign of the offset and the
  digits of its hours and minutes. A key is mapped to the Data (fields) and Status (tags)
  of a container with that timestamp, and of the containers that share a timestamp it is
  the one processed last, the first of them in stored order. When the timestamps are all
  different, \<open>js\<close> is the reversed list of containers, entry by entry, and has as many
  entries as there are containers; that is the case when the times themselves are all
  different, with years of four digits and offsets of whole minutes.
\<close>

theorem json_by_timestamp:
  assumes "map_of (measurement_data self) ident = Some stored"
  shows "\<exists>js. format_as_json self ident = Inr js
       \<and> map fst js = first_seen (map (\<lambda>p. strftime_iso (time p)) (rev stored))
       \<and> (\<forall>p\<in>set stored. iso_datetime (time p)
            \<longrightarrow> strftime_iso (time p) = iso_timestamp (time p)
              \<and> iso_format (iso_timestamp (time p))
              \<and> iso_timestamp (time p) \<in> set (map fst js))
       \<and> map_of js = map_of (map (\<lambda>p. (strftime_iso (time p), \<lparr>Data = fields' p, Status = tags p\<rparr>)) stored)
       \<and> (\<forall>xs p ys. stored = xs @ p # ys \<and> list_all (\<lambda>q. strftime_iso (time q) \<noteq> strftime_iso (time p)) xs
            \<longrightarrow> map_of js (strftime_iso (time p)) = Some \<lparr>Data = fields' p, Status = tags p\<rparr>)
       \<and> (distinct (map (\<lambda>p. strftime_iso (time p)) stored)
            \<longrightarrow> js = map (\<lambda>p. (strftime_iso (time p), \<lparr>Data = fields' p, Status = tags p\<rparr>)) (rev stored)
              \<and> length js = length stored)
       \<and> (distinct (map time stored) \<and> list_all (\<lambda>p. iso_datetime (time p)) stored
            \<longrightarrow> js = map (\<lambda>p. (iso_timestamp (time p), \<lparr>Data = fields' p, Status = tags p\<rparr>)) (rev stored)
              \<and> length js = length stored)"
proof -
  let ?k = "\<lambda>p. strftime_iso (time p)"
  let ?v = "\<lambda>p. \<lparr>Data = fields' p, Status = tags p\<rparr>"
  let ?js = "fold (\<lambda>m d. AList.update (?k m) (?v m) d) (rev stored) []"
  have 0: "format_as_json self ident = Inr ?js"
    using assms by (simp add: format_as_json_eq)
  have 1: "map fst ?js = first_seen (map ?k (rev stored))"
    by (simp add: keys_fold_update fold_add_key)
  have k: "set (map fst ?js) = ?k ` set stored"
    unfolding 1 by (simp add: set_first_seen)
  have 2: "strftime_iso (time p) = iso_timestamp (time p)
           \<and> iso_format (iso_timestamp (time p))
           \<and> iso_timestamp (time p) \<in> set (map fst ?js)"
    if "p \<in> set stored" "iso_datetime (time p)" for p
  proof -
    have e: "strftime_iso (time p) = iso_timestamp (time p)"
      using that(2) by (rule strftime_iso_timestamp)
    have "?k p \<in> set (map fst ?js)" unfolding k using that(1) by (rule imageI)
    with e iso_timestamp_format show ?thesis by simp
  qed
  have 3: "map_of ?js = map_of (map (\<lambda>p. (?k p, ?v p)) stored)"
    by (simp add: map_of_fold_update)
  have 4: "map_of ?js (?k p) = Some (?v p)"
    if "stored = xs @ p # ys \<and> list_all (\<lambda>q. ?k q \<noteq> ?k p) xs" for xs p ys
    using that map_of_first[of xs ?k p ?v ys] unfolding 3 by (simp add: list_all_iff)
  have 5: "?js = map (\<lambda>p. (?k p, ?v p)) (rev stored) \<and> length ?js = length stored"
    if "distinct (map ?k stored)"
  proof -
    from that have "distinct (map ?k (rev stored))" by (simp add: rev_map[symmetric])
    then have "?js = [] @ map (\<lambda>p. (?k p, ?v p)) (rev stored)"
      by (intro fold_update_distinct) auto
    then show ?thesis by simp
  qed
  have 6: "?js = map (\<lambda>p. (iso_timestamp (time p), ?v p)) (rev stored) \<and> length ?js = length stored"
    if h: "distinct (map time stored) \<and> list_all (\<lambda>p. iso_datetime (time p)) stored"
  proof -
    from h have i: "\<forall>p\<in>set stored. iso_datetime (time p)" by (simp add: list_all_iff)
    then have e: "\<forall>p\<in>set stored. ?k p = iso_timestamp (time p)"
      by (simp add: strftime_iso_timestamp)
    from i have "inj_on strftime_iso (set (map time stored))"
      by (auto simp: strftime_iso_timestamp intro!: inj_onI iso_timestamp_inj)
    moreover from h have "distinct (map time stored)" by blast
    ultimately have "distinct (map strftime_iso (map time stored))"
      unfolding distinct_map[of strftime_iso "map time stored"] by blast
    then have "distinct (map ?k stored)" by (simp add: comp_def)
    with 5 have j: "?js = map (\<lambda>p. (?k p, ?v p)) (rev stored)" and l: "length ?js = length stored"
      by blast+
    have "map (\<lambda>p. (?k p, ?v p)) (rev stored) = map (\<lambda>p. (iso_timestamp (time p), ?v p)) (rev stored)"
      using e by (intro map_cong) simp_all
    with j l show ?thesis by simp
  qed
  show ?thesis
    by (rule exI[of _ ?js]) (use 0 1 2 3 4 5 6 in blast)
qed

lemma west_decode:
  "decode_measurement text_platform example_meta ''station-1'' west_record = Inr west_point"
  by code_simp

lemma west_stored:
  "map_of (measurement_data west_day) ''station-1'' = Some [example_point, west_point]"
  by (simp add: west_day_def)

lemma west_times:
  "distinct (map time [example_point, west_point])
   \<and> list_all (\<lambda>p. iso_datetime (time p)) [example_point, west_point]"
  by (simp add: west_point_def example_point_def section8_point_def section8_time_def
      iso_datetime_def datetime_ok_def)

lemma west_keys:
  "iso_timestamp (time west_point) = ''2021-06-01T12:34:56-0130''"
  "iso_timestamp (time example_point) = ''2021-06-01T00:00:00+0000''"
  "strftime_iso (time example_point) = ''2021-06-01T00:00:00+0000''"
  by code_simp+

theorem json_by_timestamp_witness:
  "map_of (measurement_data west_day) ''station-1'' = Some [example_point, west_point]
   \<and> decode_measurement text_platform example_meta ''station-1'' west_record = Inr west_point
   \<and> distinct (map time [example_point, west_point])
   \<and> list_all (\<lambda>p. iso_datetime (time p)) [example_point, west_point]
   \<and> format_as_json west_day ''station-1''
       = Inr [(''2021-06-01T12:34:56-0130'', \<lparr>Data = fields' west_point, Status = tags west_point\<rparr>),
              (''2021-06-01T00:00:00+0000'',
               \<lparr>Data = fields' example_point, Status = tags example_point\<rparr>)]
   \<and> iso_format ''2021-06-01T12:34:56-0130''
   \<and> map_of (measurement_data twin_day) ''station-1'' = Some [example_point, battery_point]
   \<and> [example_point, battery_point] = [] @ example_point # [battery_point]
   \<and> list_all (\<lambda>q. strftime_iso (time q) \<noteq> strftime_iso (time example_point)) []
   \<and> (\<exists>js. format_as_json twin_day ''station-1'' = Inr js
            \<and> map fst js = [''2021-06-01T00:00:00+0000'']
            \<and> map_of js ''2021-06-01T00:00:00+0000''
                = Some \<lparr>Data = fields' example_point, Status = tags example_point\<rparr>)"
proof -
  obtain js where j: "format_as_json west_day ''station-1'' = Inr js"
    and f: "\<forall>p\<in>set [example_point, west_point]. iso_datetime (time p)
            \<longrightarrow> strftime_iso (time p) = iso_timestamp (time p)
              \<and> iso_format (iso_timestamp (time p))
              \<and> iso_timestamp (time p) \<in> set (map fst js)"
    and n: "distinct (map time [example_point, west_point])
            \<and> list_all (\<lambda>p. iso_datetime (time p)) [example_point, west_point]
            \<longrightarrow> js = map (\<lambda>p. (iso_timestamp (time p), \<lparr>Data = fields' p, Status = tags p\<rparr>))
                     (rev [example_point, west_point])
              \<and> length js = length [example_point, west_point]"
    using json_by_timestamp[OF west_stored] by blast
  from n west_times have "js = map (\<lambda>p. (iso_timestamp (time p), \<lparr>Data = fields' p, Status = tags p\<rparr>))
                     (rev [example_point, west_point])"
    by blast
  with j have 1: "format_as_json west_day ''station-1''
       = Inr [(''2021-06-01T12:34:56-0130'', \<lparr>Data = fields' west_point, Status = tags west_point\<rparr>),
              (''2021-06-01T00:00:00+0000'',
               \<lparr>Data = fields' example_point, Status = tags example_point\<rparr>)]"
    by (simp add: west_keys)
  from f west_times have "iso_format (iso_timestamp (time west_point))" by simp
  then have 2: "iso_format ''2021-06-01T12:34:56-0130''" by (simp only: west_keys)
  have a: "[example_point, battery_point] = [] @ example_point # [battery_point]
           \<and> list_all (\<lambda>q. strftime_iso (time q) \<noteq> strftime_iso (time example_point)) []"
    by simp
  obtain js' where j': "format_as_json twin_day ''station-1'' = Inr js'"
    and k': "map fst js' = first_seen (map (\<lambda>p. strftime_iso (time p)) (rev [example_point, battery_point]))"
    and l': "\<forall>xs p ys. [example_point, battery_point] = xs @ p # ys
               \<and> list_all (\<lambda>q. strftime_iso (time q) \<noteq> strftime_iso (time p)) xs
            \<longrightarrow> map_of js' (strftime_iso (time p)) = Some \<lparr>Data = fields' p, Status = tags p\<rparr>"
    using json_by_timestamp[OF example_points] by blast
  have "time battery_point = time example_point" by (simp add: battery_point_def)
  with k' have "map fst js' = [''2021-06-01T00:00:00+0000'']" by (simp add: west_keys)
  moreover from l' a have "map_of js' (strftime_iso (time example_point))
       = Some \<lparr>Data = fields' example_point, Status = tags example_point\<rparr>"
    by blast
  ultimately have 3: "\<exists>js. format_as_json twin_day ''station-1'' = Inr js
            \<and> map fst js = [''2021-06-01T00:00:00+0000'']
            \<and> map_of js ''2021-06-01T00:00:00+0000''
                = Some \<lparr>Data = fields' example_point, Status = tags example_point\<rparr>"
    using j' by (simp add: west_keys)
  show ?thesis
    by (intro conjI)
      (rule west_stored west_decode west_times[THEN conjunct1] west_times[THEN conjunct2] 1 2
         example_points a[THEN conjunct1] a[THEN conjunct2] 3)+
qed
section \<open>Containers have dictionaries\<close>

text \<open>
  The keys of a \<^verbatim>\<open>dict\<close> are distinct. The decoder builds both mappings of a
  container by item assignment, so what it returns meets that.
\<close>

lemma add_location_distinct:
  "distinct (map fst fs) \<Longrightarrow> add_location pf m key fs = Inr fs' \<Longrightarrow> distinct (map fst fs')"
  by (auto simp: add_location_def AList.distinct_update split: sum.splits if_splits)

lemma add_field_distinct:
  "distinct (map fst fs) \<Longrightarrow> add_field pf c t fs = Inr fs' \<Longrightarrow> distinct (map fst fs')"
  by (auto simp: add_field_def AList.distinct_update split: sum.splits)

lemma decode_channel_distinct:
  assumes "distinct (map fst (fst ft)) \<and> distinct (map fst (snd ft))"
    and "decode_channel pf c ft = Inr ft'"
  shows "distinct (map fst (fst ft')) \<and> distinct (map fst (snd ft'))"
proof (cases "PreScaled c = PNone")
  case True
  with assms show ?thesis by (simp add: decode_channel_def)
next
  case False
  with assms(2) obtain fs flag_string where
    f: "fold_err (add_field pf c) measurement_types (fst ft) = Inr fs"
    and r: "ft' = (fs, AList.update (flag_key c) (PStr flag_string) (snd ft))"
    by (auto simp: decode_channel_def split: sum.splits)
  have "distinct (map fst fs)"
    by (rule fold_err_invariant[OF f, where P = "\<lambda>fs. distinct (map fst fs)"])
      (use assms(1) in \<open>auto intro: add_field_distinct\<close>)
  with assms(1) r show ?thesis by (simp add: AList.distinct_update)
qed

lemma fold_update_distinct_keys:
  "distinct (map fst t) \<Longrightarrow> distinct (map fst (fold (\<lambda>(k, v) t. AList.update k v t) d t))"
  by (induction d arbitrary: t) (auto simp: AList.distinct_update)

lemma decode_measurement_distinct:
  assumes "decode_measurement pf meta ident m = Inr p"
  shows "distinct (py_keys (fields' p)) \<and> distinct (py_keys (tags p))"
proof -
  from assms obtain t fs0 fs ts station where
    l: "fold_err (add_location pf m) location_keys [] = Inr fs0"
    and c: "fold_err (decode_channel pf) (Channels m) (fs0, []) = Inr (fs, ts)"
    and p: "p = \<lparr>time = t, measurement = ''ACOEM UK Systems'', fields' = fs,
                 tags = fold (\<lambda>(status, v) t. AList.update status v t) station ts\<rparr>"
    by (auto simp: decode_measurement_def split: sum.splits)
  have 0: "distinct (map fst fs0)"
    by (rule fold_err_invariant[OF l, where P = "\<lambda>fs. distinct (map fst fs)"])
      (auto intro: add_location_distinct)
  have "distinct (map fst (fst (fs, ts))) \<and> distinct (map fst (snd (fs, ts)))"
  proof (rule fold_err_invariant[OF c,
          where P = "\<lambda>ft. distinct (map fst (fst ft)) \<and> distinct (map fst (snd ft))"])
    show "distinct (map fst (fst (fs0, []))) \<and> distinct (map fst (snd (fs0, [])))"
      using 0 by simp
  next
    fix x ft ft'
    assume "distinct (map fst (fst ft)) \<and> distinct (map fst (snd ft))"
      and "decode_channel pf x ft = Inr ft'"
    then show "distinct (map fst (fst ft')) \<and> distinct (map fst (snd ft'))"
      by (rule decode_channel_distinct)
  qed
  then show ?thesis
    by (simp add: p py_keys_def fold_update_distinct_keys)
qed

section \<open>The csv formatter\<close>

lemma map_of_py_merge:
  "distinct (map fst b) \<Longrightarrow> map_of (py_merge a b) = map_of a ++ map_of b"
  unfolding py_merge_def
proof (induction b arbitrary: a)
  case Nil
  then show ?case by simp
next
  case (Cons kv b)
  obtain k v where kv: "kv = (k, v)" by (cases kv)
  from Cons.prems kv have "map_of b k = None" and d: "distinct (map fst b)"
    by (auto simp: map_of_eq_None_iff)
  then show ?case
    using Cons.IH[OF d, of "AList.update k v a"] kv
    by (auto simp: AList.update_conv' map_add_def fun_eq_iff split: option.splits)
qed

lemma in_keys_iff: "k \<in> set (py_keys d) \<longleftrightarrow> map_of d k \<noteq> None"
  by (simp add: py_keys_def map_of_eq_None_iff)

lemma map_of_PFloat:
  "map_of (map (\<lambda>(k, x). (k, PFloat x)) d) key = map_option PFloat (map_of d key)"
  by (induction d) auto

lemma combined_values_lookup:
  assumes "distinct (py_keys (tags m))"
  shows "map_of (combined_values_of m) key =
     (case map_of (tags m) key of
        Some v \<Rightarrow> Some v
      | None \<Rightarrow> map_option PFloat (map_of (fields' m) key))"
  using assms
  by (simp add: combined_values_of_def py_keys_def map_of_py_merge map_of_PFloat map_add_def
      split: option.splits)

lemma csv_value_cell_rule:
  assumes "distinct (py_keys (tags m))"
  shows "csv_value pf m key = Inr (cell_rule pf m key)"
  by (auto simp: csv_value_def cell_rule_def Let_def in_keys_iff py_getitem_def
      combined_values_lookup[OF assms] split: option.splits)

lemma fold_cells:
  "distinct (py_keys (tags m)) \<Longrightarrow>
   fold_err (\<lambda>key raw. case csv_value pf m key of Inl e \<Rightarrow> Inl e | Inr v \<Rightarrow> Inr (raw @ '', '' @ v))
     columns raw
   = Inr (raw @ concat (map (\<lambda>key. '', '' @ cell_rule pf m key) columns))"
  by (induction columns arbitrary: raw) (simp_all add: csv_value_cell_rule)

lemma csv_row_eq:
  "distinct (py_keys (tags m)) \<Longrightarrow>
   csv_row pf columns m raw
   = Inr (raw @ strftime_csv (time m) @ concat (map (\<lambda>key. '', '' @ cell_rule pf m key) columns)
          @ [newline])"
  by (simp add: csv_row_def fold_cells)

lemma fold_rows:
  "list_all (\<lambda>m. distinct (py_keys (tags m))) ms \<Longrightarrow>
   fold_err (csv_row pf columns) ms raw
   = Inr (raw @ concat (map (\<lambda>m. strftime_csv (time m)
                                  @ concat (map (\<lambda>key. '', '' @ cell_rule pf m key) columns)
                                  @ [newline]) ms))"
  by (induction ms arbitrary: raw) (simp_all add: csv_row_eq)

lemma fold_header:
  "fold (\<lambda>column raw. raw @ sep @ column) columns first = first @ concat (map (\<lambda>c. sep @ c) columns)"
  by (induction columns arbitrary: first) auto

lemma fold_snoc: "fold (\<lambda>x h. h @ [f x]) xs h = h @ map f xs"
  by (induction xs arbitrary: h) auto

lemma add_variable_columns_eq:
  "add_variable_columns vu h =
   h @ map (\<lambda>t. fst vu @ '' '' @ t @ (if t = ''Flag'' then [] else '' '' @ snd vu)) measurement_order"
  unfolding add_variable_columns_def Let_def
  by (simp add: fold_snoc cong: map_cong)

lemma fold_add_variable_columns:
  "\<exists>cols. fold add_variable_columns vs (first # h) = first # cols"
  by (induction vs arbitrary: h) (auto simp: add_variable_columns_eq)

lemma csv_header_Timestamp: "\<exists>columns. csv_header_of keys = ''Timestamp'' # columns"
proof -
  obtain cols where
    "fold add_variable_columns (fold add_variable (key_fields keys) []) [''Timestamp'']
     = ''Timestamp'' # cols"
    using fold_add_variable_columns by blast
  then show ?thesis
    by (simp add: csv_header_of_def Let_def fold_snoc[where f = "\<lambda>x. x", simplified])
qed

lemma clash_decode:
  "decode_measurement text_platform clash_meta ''station-1'' example_record = Inr clash_point"
  by code_simp

lemma clash_classification: "get_key_classifications clash_day ''station-1'' = Inr clash_keys"
  by code_simp

lemma clash_csv:
  "format_as_csv text_platform clash_day ''station-1'' clash_keys
   = Inr (''Timestamp, PM25 PreScaled [ug/m3], PM25 Scaled [ug/m3], PM25 Flag, PM25 Slope [ug/m3], PM25 Offset [ug/m3]''
          @ [newline]
          @ ''2021-06-01 00:00:00, n/a, 9.5, '' @ [dquote] @ ''Valid'' @ [dquote] @ '', 1.0, 0.1''
          @ [newline])"
  by code_simp

text \<open>
  What \<^verbatim>\<open>format_as_csv\<close> prints. The csv text is the header line followed by one
  line per container, in the reverse of the stored order; a line is the time and then,
  for every column after Timestamp, a comma, a space and the cell. The cell is empty
  when the column's key is neither a field nor a tag of the container, the field's value
  as \<^verbatim>\<open>str\<close> prints it when the key is a field only, and the tag's value in double
  quotes when the key is a tag only. When the key is both, the merged mapping
  \<^verbatim>\<open>{**fields, **tags}\<close> holds the tag's value and the test \<^verbatim>\<open>key in field_keys\<close>
  prints it without quotes.
\<close>

lemma format_as_csv_cells:
  assumes "map_of (measurement_data self) ident = Some stored"
    and "list_all (\<lambda>m. distinct (py_keys (tags m))) stored"
  shows "csv_header_of keys = ''Timestamp'' # tl (csv_header_of keys)
       \<and> format_as_csv pf self ident keys =
           Inr (''Timestamp'' @ concat (map (\<lambda>column. '', '' @ column) (tl (csv_header_of keys)))
                @ [newline]
                @ concat (map (\<lambda>m. strftime_csv (time m)
                                   @ concat (map (\<lambda>key. '', '' @ cell_rule pf m key)
                                               (tl (csv_header_of keys)))
                                   @ [newline]) (rev stored)))
       \<and> (distinct (py_keys (tags m)) \<longrightarrow> csv_value pf m key = Inr (cell_rule pf m key))
       \<and> (map_of (fields' m) key = None \<and> map_of (tags m) key = None \<longrightarrow> cell_rule pf m key = [])
       \<and> (map_of (fields' m) key = Some x \<and> map_of (tags m) key = None
            \<longrightarrow> cell_rule pf m key = float_repr pf x)
       \<and> (map_of (fields' m) key = None \<and> map_of (tags m) key = Some v
            \<longrightarrow> cell_rule pf m key = [dquote] @ py_str pf v @ [dquote])
       \<and> (map_of (fields' m) key = Some x \<and> map_of (tags m) key = Some v
            \<longrightarrow> cell_rule pf m key = py_str pf v)"
proof -
  obtain columns where h: "csv_header_of keys = ''Timestamp'' # columns"
    using csv_header_Timestamp by blast
  from assms(2) have r: "list_all (\<lambda>m. distinct (py_keys (tags m))) (rev stored)"
    by (simp add: list_all_iff)
  have 1: "format_as_csv pf self ident keys =
           Inr (''Timestamp'' @ concat (map (\<lambda>column. '', '' @ column) columns) @ [newline]
                @ concat (map (\<lambda>m. strftime_csv (time m)
                                   @ concat (map (\<lambda>key. '', '' @ cell_rule pf m key) columns)
                                   @ [newline]) (rev stored)))"
    using assms(1) h
    by (simp add: format_as_csv_def py_getitem_def fold_rows[OF r]
        fold_header[where sep = "'', ''", simplified])
  have 2: "(map_of (fields' m) key = None \<and> map_of (tags m) key = None \<longrightarrow> cell_rule pf m key = [])
       \<and> (map_of (fields' m) key = Some x \<and> map_of (tags m) key = None
            \<longrightarrow> cell_rule pf m key = float_repr pf x)
       \<and> (map_of (fields' m) key = None \<and> map_of (tags m) key = Some v
            \<longrightarrow> cell_rule pf m key = [dquote] @ py_str pf v @ [dquote])
       \<and> (map_of (fields' m) key = Some x \<and> map_of (tags m) key = Some v
            \<longrightarrow> cell_rule pf m key = py_str pf v)"
    by (auto simp: cell_rule_def in_keys_iff)
  from h 1 2 csv_value_cell_rule[of m pf key] show ?thesis by simp
qed

lemma clash_json:
  "format_as_json clash_day ''station-1''
   = Inr [(''2021-06-01T00:00:00+0000'',
           \<lparr>Data = [(''PM25 PreScaled [ug/m3]'', ''10.0''), (''PM25 Scaled [ug/m3]'', ''9.5''),
                    (''PM25 Slope [ug/m3]'', ''1.0''), (''PM25 Offset [ug/m3]'', ''0.1'')],
            Status = [(''PM25 Flag'', PStr ''Valid''), (''PM25 PreScaled [ug/m3]'', PStr ''n/a'')]\<rparr>)]"
  by code_simp

text \<open>
  C1 lets the field's value win where a key is both a field and a tag of a container.
  At such a key the csv formatter does not print the field. With a station attribute
  named \<^verbatim>\<open>PM25 PreScaled [ug/m3]\<close> of value n/a, the example record decodes to a
  container whose field of that name is 10.0 and whose tag of that name is n/a. The csv
  row of that container shows n/a in the column of that name, without quotes, and the
  field's 10.0 nowhere; the json formatter, on the same container, keeps the field 10.0
  under Data and the tag n/a under Status.
\<close>

theorem csv_field_precedence_failing_input:
  "decode_measurement text_platform clash_meta ''station-1'' example_record = Inr clash_point
   \<and> map_of (fields' clash_point) ''PM25 PreScaled [ug/m3]'' = Some ''10.0''
   \<and> map_of (tags clash_point) ''PM25 PreScaled [ug/m3]'' = Some (PStr ''n/a'')
   \<and> get_key_classifications clash_day ''station-1'' = Inr clash_keys
   \<and> ''PM25 PreScaled [ug/m3]'' \<in> set (key_fields clash_keys)
   \<and> csv_value text_platform clash_point ''PM25 PreScaled [ug/m3]'' = Inr ''n/a''
   \<and> format_as_csv text_platform clash_day ''station-1'' clash_keys
     = Inr (''Timestamp, PM25 PreScaled [ug/m3], PM25 Scaled [ug/m3], PM25 Flag, PM25 Slope [ug/m3], PM25 Offset [ug/m3]''
            @ [newline]
            @ ''2021-06-01 00:00:00, n/a, 9.5, '' @ [dquote] @ ''Valid'' @ [dquote] @ '', 1.0, 0.1''
            @ [newline])
   \<and> format_as_json clash_day ''station-1''
     = Inr [(''2021-06-01T00:00:00+0000'',
             \<lparr>Data = [(''PM25 PreScaled [ug/m3]'', ''10.0''), (''PM25 Scaled [ug/m3]'', ''9.5''),
                      (''PM25 Slope [ug/m3]'', ''1.0''), (''PM25 Offset [ug/m3]'', ''0.1'')],
              Status = [(''PM25 Flag'', PStr ''Valid''), (''PM25 PreScaled [ug/m3]'', PStr ''n/a'')]\<rparr>)]"
proof -
  have "map_of (fields' clash_point) ''PM25 PreScaled [ug/m3]'' = Some ''10.0''"
    and "map_of (tags clash_point) ''PM25 PreScaled [ug/m3]'' = Some (PStr ''n/a'')"
    and "''PM25 PreScaled [ug/m3]'' \<in> set (key_fields clash_keys)"
    by (simp_all add: clash_point_def example_point_def section8_point_def clash_keys_def
        section8_keys_def)
  moreover have "csv_value text_platform clash_point ''PM25 PreScaled [ug/m3]'' = Inr ''n/a''"
    by code_simp
  ultimately show ?thesis
    using clash_decode clash_classification clash_csv clash_json by simp
qed

section \<open>The csv text of the example record\<close>

lemma section8_decode:
  assumes "strptime pf ''2021-06-01T00:00:00+0000'' = Inr section8_time"
  shows "decode_measurement pf [(ident, [(''SerialNumber'', PStr ''ABC123'')])] ident
           (section8_record a b s d)
         = Inr (section8_point a b s d)"
  using assms
  by (simp add: decode_measurement_def section8_record_def section8_channel_def section8_point_def
      location_keys_def add_location_def measurement_item_def decode_channel_def
      measurement_types_def add_field_def channel_item_def field_key_def flag_key_def flag_tag_def
      py_getitem_def)

lemma section8_classify:
  "get_key_classifications
     \<lparr>station_meta = meta, measurement_data = [(ident, [section8_point a b s d])]\<rparr> ident
   = Inr section8_keys"
  by (simp add: get_key_classifications_def py_getitem_def classify_def section8_point_def
      section8_keys_def py_keys_def add_key_def Let_def)

lemma section8_header:
  "csv_header_of section8_keys =
     [''Timestamp'', ''PM25 PreScaled [ug/m3]'', ''PM25 Scaled [ug/m3]'', ''PM25 Flag'',
      ''PM25 Slope [ug/m3]'', ''PM25 Offset [ug/m3]'', ''SerialNumber'']"
  by code_simp

lemma section8_time_csv: "strftime_csv section8_time = ''2021-06-01 00:00:00''"
  by code_simp

lemma section8_csv:
  assumes "float_repr pf a = ''10.0''" "float_repr pf b = ''9.5''"
    "float_repr pf s = ''1.0''" "float_repr pf d = ''0.1''"
  shows "format_as_csv pf
           \<lparr>station_meta = meta, measurement_data = [(ident, [section8_point a b s d])]\<rparr> ident
           section8_keys
   = Inr (''Timestamp, PM25 PreScaled [ug/m3], PM25 Scaled [ug/m3], PM25 Flag, PM25 Slope [ug/m3], PM25 Offset [ug/m3], SerialNumber''
          @ [newline]
          @ ''2021-06-01 00:00:00, 10.0, 9.5, '' @ [dquote] @ ''Valid'' @ [dquote] @ '', 1.0, 0.1, ''
          @ [dquote] @ ''ABC123'' @ [dquote] @ [newline])"
  using assms
  by (simp add: format_as_csv_def py_getitem_def section8_header csv_row_def csv_value_def
      combined_values_of_def py_merge_def py_keys_def section8_point_def section8_time_csv Let_def)

lemma example_response_download:
  "dl_station_measurements text_platform example_api ''station-1'' (response_of [example_record])
   = Inr example_day"
  by code_simp

lemma example_classification: "get_key_classifications example_day ''station-1'' = Inr section8_keys"
  by code_simp

lemma example_csv_differs:
  "format_as_csv text_platform example_day ''station-1'' section8_keys
   \<noteq> Inr (''Timestamp, PM25 PreScaled ug/m3, PM25 Scaled ug/m3, PM25 Flag, PM25 Slope ug/m3, PM25 Offset ug/m3, SerialNumber''
          @ [newline]
          @ ''2021-06-01 00:00:00, 10.0, 9.5, '' @ [dquote] @ ''Valid'' @ [dquote] @ '', 1.0, 0.1, ''
          @ [dquote] @ ''ABC123'' @ [dquote] @ [newline])"
  by code_simp

text \<open>
  C2, as stated, has the units in the header without brackets. The unit kept for a
  variable is the field key from its \<^verbatim>\<open>[\<close> on, brackets included, so the header
  columns are the field keys themselves; the second column of the example is
  \<^verbatim>\<open>PM25 PreScaled [ug/m3]\<close>, and the text the claim gives is not the formatter's.
\<close>

theorem csv_example_counterexample:
  "dl_station_measurements text_platform example_api ''station-1'' (response_of [example_record])
     = Inr example_day
   \<and> get_key_classifications example_day ''station-1'' = Inr section8_keys
   \<and> csv_header_of section8_keys ! 1 = ''PM25 PreScaled [ug/m3]''
   \<and> format_as_csv text_platform example_day ''station-1'' section8_keys
     \<noteq> Inr (''Timestamp, PM25 PreScaled ug/m3, PM25 Scaled ug/m3, PM25 Flag, PM25 Slope ug/m3, PM25 Offset ug/m3, SerialNumber''
            @ [newline]
            @ ''2021-06-01 00:00:00, 10.0, 9.5, '' @ [dquote] @ ''Valid'' @ [dquote] @ '', 1.0, 0.1, ''
            @ [dquote] @ ''ABC123'' @ [dquote] @ [newline])"
  using example_response_download example_classification example_csv_differs
  by (simp add: section8_header)

text \<open>
  C2, amended. On a platform that parses the timestamp of the example to 2021-06-01
  00:00:00 at offset zero and prints the four floats as 10.0, 9.5, 1.0 and 0.1, the
  example record decodes to the example container, its key classification is the four
  field keys and the two tag keys, and the csv text of a dataset holding just that
  container is the header line
  \<^verbatim>\<open>Timestamp, PM25 PreScaled [ug/m3], PM25 Scaled [ug/m3], PM25 Flag, PM25 Slope [ug/m3], PM25 Offset [ug/m3], SerialNumber\<close>
  and the row \<^verbatim>\<open>2021-06-01 00:00:00, 10.0, 9.5, "Valid", 1.0, 0.1, "ABC123"\<close>, each
  ended by a newline.
\<close>

theorem section8_csv_output:
  assumes "strptime pf ''2021-06-01T00:00:00+0000'' = Inr section8_time"
    and "float_repr pf a = ''10.0''" and "float_repr pf b = ''9.5''"
    and "float_repr pf s = ''1.0''" and "float_repr pf d = ''0.1''"
  shows "decode_measurement pf [(ident, [(''SerialNumber'', PStr ''ABC123'')])] ident
           (section8_record a b s d)
         = Inr (section8_point a b s d)
       \<and> get_key_classifications
           \<lparr>station_meta = meta, measurement_data = [(ident, [section8_point a b s d])]\<rparr> ident
         = Inr section8_keys
       \<and> format_as_csv pf
           \<lparr>station_meta = meta, measurement_data = [(ident, [section8_point a b s d])]\<rparr> ident
           section8_keys
         = Inr (''Timestamp, PM25 PreScaled [ug/m3], PM25 Scaled [ug/m3], PM25 Flag, PM25 Slope [ug/m3], PM25 Offset [ug/m3], SerialNumber''
                @ [newline]
                @ ''2021-06-01 00:00:00, 10.0, 9.5, '' @ [dquote] @ ''Valid'' @ [dquote]
                @ '', 1.0, 0.1, '' @ [dquote] @ ''ABC123'' @ [dquote] @ [newline])"
proof (intro conjI)
  show "decode_measurement pf [(ident, [(''SerialNumber'', PStr ''ABC123'')])] ident
           (section8_record a b s d)
         = Inr (section8_point a b s d)"
    using assms(1) by (rule section8_decode)
  show "get_key_classifications
           \<lparr>station_meta = meta, measurement_data = [(ident, [section8_point a b s d])]\<rparr> ident
         = Inr section8_keys"
    by (rule section8_classify)
  show "format_as_csv pf
           \<lparr>station_meta = meta, measurement_data = [(ident, [section8_point a b s d])]\<rparr> ident
           section8_keys
         = Inr (''Timestamp, PM25 PreScaled [ug/m3], PM25 Scaled [ug/m3], PM25 Flag, PM25 Slope [ug/m3], PM25 Offset [ug/m3], SerialNumber''
                @ [newline]
                @ ''2021-06-01 00:00:00, 10.0, 9.5, '' @ [dquote] @ ''Valid'' @ [dquote]
                @ '', 1.0, 0.1, '' @ [dquote] @ ''ABC123'' @ [dquote] @ [newline])"
    using assms(2-5) by (rule section8_csv)
qed

theorem section8_csv_output_witness:
  "strptime text_platform ''2021-06-01T00:00:00+0000'' = Inr section8_time
   \<and> float_repr text_platform ''10.0'' = ''10.0'' \<and> float_repr text_platform ''9.5'' = ''9.5''
   \<and> float_repr text_platform ''1.0'' = ''1.0'' \<and> float_repr text_platform ''0.1'' = ''0.1''
   \<and> decode_measurement text_platform [(''station-1'', [(''SerialNumber'', PStr ''ABC123'')])]
        ''station-1'' (section8_record ''10.0'' ''9.5'' ''1.0'' ''0.1'')
      = Inr (section8_point ''10.0'' ''9.5'' ''1.0'' ''0.1'')
   \<and> get_key_classifications
        \<lparr>station_meta = example_meta,
         measurement_data = [(''station-1'', [section8_point ''10.0'' ''9.5'' ''1.0'' ''0.1''])]\<rparr>
        ''station-1''
      = Inr section8_keys
   \<and> format_as_csv text_platform
        \<lparr>station_meta = example_meta,
         measurement_data = [(''station-1'', [section8_point ''10.0'' ''9.5'' ''1.0'' ''0.1''])]\<rparr>
        ''station-1'' section8_keys
      = Inr (''Timestamp, PM25 PreScaled [ug/m3], PM25 Scaled [ug/m3], PM25 Flag, PM25 Slope [ug/m3], PM25 Offset [ug/m3], SerialNumber''
             @ [newline]
             @ ''2021-06-01 00:00:00, 10.0, 9.5, '' @ [dquote] @ ''Valid'' @ [dquote]
             @ '', 1.0, 0.1, '' @ [dquote] @ ''ABC123'' @ [dquote] @ [newline])"
proof -
  have p: "strptime text_platform ''2021-06-01T00:00:00+0000'' = Inr section8_time"
    by code_simp
  have r: "float_repr text_platform ''10.0'' = ''10.0''" "float_repr text_platform ''9.5'' = ''9.5''"
    "float_repr text_platform ''1.0'' = ''1.0''" "float_repr text_platform ''0.1'' = ''0.1''"
    by (simp_all add: text_platform_def)
  from section8_csv_output[OF p r, where ident = "''station-1''" and meta = example_meta] p r
  show ?thesis by blast
qed


end
